theory Spec2Isabelle
  imports Main "HOL-Library.AList"
begin

section \<open>Python values, exceptions and dictionaries\<close>

text \<open>
  The notebook \<^verbatim>\<open>5.venue-recommender.ipynb\<close> handles rows of the Cassandra table
  \<^verbatim>\<open>lbsn.kmeans_topvenues\<close> as Python dictionaries whose values are \<^verbatim>\<open>None\<close>,
  integers, floats and strings. The code never computes with a float: it reads floats,
  passes them to the fitted model and prints them. A float is therefore represented by the
  text that \<^verbatim>\<open>repr\<close> prints for it (\<^verbatim>\<open>'40.7034970026'\<close>, \<^verbatim>\<open>'nan'\<close>, \<^verbatim>\<open>'inf'\<close>);
  Python's \<^verbatim>\<open>float(s)\<close>, the only operation that creates one, is a parameter of the model.
  A string is a list of code points below 256. A dictionary is the list of its items in the
  order of insertion, each key once; Python 3.5 leaves the order of iteration open, and no
  statement below depends on it but through the order in which \<^verbatim>\<open>json.dumps\<close> writes the
  members.
\<close>

datatype pyval = PNone | PInt int | PFloat string | PStr string

text \<open>
  The exceptions the code can raise. \<open>IndexError\<close> is what \<^verbatim>\<open>rows[0]\<close> raises on an empty
  result set (the specification's NotFound), \<open>ValueError\<close> is what \<^verbatim>\<open>float\<close> raises on text
  that is no number (the specification's InvalidCoordinate), \<open>InvalidRequest\<close> is the
  driver's error for a statement that Cassandra refuses.
\<close>

datatype error = IndexError | KeyError | TypeError | ValueError | InvalidRequest

type_synonym dict = "(string \<times> pyval) list"

definition dict_get :: "dict \<Rightarrow> string \<Rightarrow> error + pyval" where
  "dict_get d k = (case map_of d k of None \<Rightarrow> Inl KeyError | Some v \<Rightarrow> Inr v)"

definition dict_set :: "dict \<Rightarrow> string \<Rightarrow> pyval \<Rightarrow> dict" where
  "dict_set d k v = AList.update k v d"

definition py_dict :: "(string \<times> pyval) list \<Rightarrow> dict" where
  "py_dict ps = foldl (\<lambda>d (k, v). dict_set d k v) [] ps"

subsection \<open>\<^verbatim>\<open>str\<close>, truth values and string formatting\<close>

fun digits :: "nat \<Rightarrow> string" where
  "digits n = (if n < 10 then [''0123456789'' ! n]
               else digits (n div 10) @ [''0123456789'' ! (n mod 10)])"

definition str_int :: "int \<Rightarrow> string" where
  "str_int i = (if i < 0 then CHR ''-'' # digits (nat (- i)) else digits (nat i))"

fun py_str :: "pyval \<Rightarrow> string" where
  "py_str PNone = ''None''"
| "py_str (PInt i) = str_int i"
| "py_str (PFloat r) = r"
| "py_str (PStr s) = s"

fun truthy :: "pyval \<Rightarrow> bool" where
  "truthy PNone = False"
| "truthy (PInt i) = (i \<noteq> 0)"
| "truthy (PFloat r) = (r \<noteq> ''0.0'' \<and> r \<noteq> ''-0.0'')"
| "truthy (PStr s) = (s \<noteq> [])"

section \<open>The store, the external service and the trace of effects\<close>

text \<open>
  \<open>columns\<close> is \<^verbatim>\<open>cluster.metadata.keyspaces['lbsn'].tables['kmeans_topvenues'].columns.keys()\<close>,
  \<open>table\<close> holds the rows of the table, each in the order of \<^verbatim>\<open>SELECT *\<close>. Every
  statement sent to Cassandra and every request sent to Wikipedia is appended to \<open>trace\<close>.
\<close>

datatype event = Select int nat | Update string pyval | UrlOpen string

record world =
  columns :: "string list"
  table :: "pyval list list"
  trace :: "event list"

fun col_index :: "string \<Rightarrow> string list \<Rightarrow> nat option" where
  "col_index k [] = None"
| "col_index k (c # cs) = (if c = k then Some 0 else map_option Suc (col_index k cs))"

definition row_cid :: "string list \<Rightarrow> pyval list \<Rightarrow> pyval option" where
  "row_cid cols r = map_of (zip cols r) ''cid''"

text \<open>\<^verbatim>\<open>SELECT * from lbsn.kmeans_topvenues where cid= ? LIMIT ?\<close>\<close>

definition cql_select :: "int \<Rightarrow> nat \<Rightarrow> world \<Rightarrow> pyval list list" where
  "cql_select cid lim w =
     take lim (filter (\<lambda>r. row_cid (columns w) r = Some (PInt cid)) (table w))"

text \<open>
  \<^verbatim>\<open>UPDATE lbsn.kmeans_topvenues SET url = '{}' WHERE cid = {}\<close>, the two holes filled by
  \<^verbatim>\<open>str.format\<close>. Cassandra reads the text between the apostrophes as a string constant of
  CQL, in which a doubled apostrophe stands for one apostrophe: \<open>cql_text\<close> is the text that
  is stored. A single apostrophe ends the constant early, and what follows it is read as CQL:
  such a statement, and one whose second hole holds no integer, is taken to be refused (it
  is a syntax error unless the rest of the link happens to be CQL). An update of Cassandra
  writes the row when no row has the key.
\<close>

fun cql_text :: "string \<Rightarrow> string option" where
  "cql_text [] = Some []"
| "cql_text (c # cs) =
     (if c \<noteq> CHR 0x27 then map_option ((#) c) (cql_text cs)
      else (case cs of
              [] \<Rightarrow> None
            | d # ds \<Rightarrow> if d = CHR 0x27 then map_option ((#) (CHR 0x27)) (cql_text ds) else None))"

definition set_url :: "string list \<Rightarrow> string \<Rightarrow> pyval list \<Rightarrow> pyval list" where
  "set_url cols u r = (case col_index ''url'' cols of None \<Rightarrow> r | Some i \<Rightarrow> r[i := PStr u])"

definition upsert_url :: "string list \<Rightarrow> string \<Rightarrow> int \<Rightarrow> pyval list list \<Rightarrow> pyval list list" where
  "upsert_url cols u cid rs =
     (if \<exists>r \<in> set rs. row_cid cols r = Some (PInt cid)
      then map (\<lambda>r. if row_cid cols r = Some (PInt cid) then set_url cols u r else r) rs
      else rs @ [map (\<lambda>k. if k = ''cid'' then PInt cid
                           else if k = ''url'' then PStr u else PNone) cols])"

definition cql_update :: "string \<Rightarrow> pyval \<Rightarrow> world \<Rightarrow> (error + unit) \<times> world" where
  "cql_update u c w =
     (let w1 = w\<lparr>trace := trace w @ [Update u c]\<rparr> in
      case c of
        PInt cid \<Rightarrow>
          (case cql_text u of
             None \<Rightarrow> (Inl InvalidRequest, w1)
           | Some t \<Rightarrow>
               if col_index ''url'' (columns w) = None then (Inl InvalidRequest, w1)
               else (Inr (), w1\<lparr>table := upsert_url (columns w) t cid (table w)\<rparr>))
      | _ \<Rightarrow> (Inl InvalidRequest, w1))"

section \<open>\<^verbatim>\<open>geturl\<close>\<close>

text \<open>
  \<^verbatim>\<open>urllib.parse.quote\<close> of Python 3.5 with its default \<^verbatim>\<open>safe='/'\<close>: the text is encoded
  in UTF-8 and every byte that is not a letter, a digit or one of \<^verbatim>\<open>_.-/\<close> becomes
  \<^verbatim>\<open>%XX\<close>. Applied to anything but text it raises \<open>TypeError\<close>.
\<close>

definition utf8 :: "char \<Rightarrow> nat list" where
  "utf8 c = (let n = of_char c in if n < 128 then [n] else [192 + n div 64, 128 + n mod 64])"

definition always_safe :: "nat \<Rightarrow> bool" where
  "always_safe n = ((65 \<le> n \<and> n \<le> 90) \<or> (97 \<le> n \<and> n \<le> 122) \<or> (48 \<le> n \<and> n \<le> 57)
                    \<or> n = 95 \<or> n = 46 \<or> n = 45)"

definition quote_byte :: "nat \<Rightarrow> string" where
  "quote_byte n = (if always_safe n \<or> n = 47 then [char_of n]
                   else [CHR ''%'', ''0123456789ABCDEF'' ! (n div 16), ''0123456789ABCDEF'' ! (n mod 16)])"

definition quote :: "string \<Rightarrow> string" where
  "quote s = concat (map quote_byte (concat (map utf8 s)))"

text \<open>
  \<open>wiki\<close> is the external search service: the request for a URL either gives the text at
  \<^verbatim>\<open>[3][0]\<close> of the decoded answer, or fails (\<open>None\<close>: any exception between building the
  request and indexing the answer). The \<^verbatim>\<open>finally: return wiki_url\<close> returns the initial
  \<^verbatim>\<open>''\<close> in that case. \<^verbatim>\<open>quote\<close> stands before the \<^verbatim>\<open>try\<close>.
\<close>

definition search_url :: "string \<Rightarrow> string" where
  "search_url q = ''https://en.wikipedia.org/w/api.php?action=opensearch&search='' @ q
                  @ ''&limit=1&format=json''"

definition geturl :: "(string \<Rightarrow> string option) \<Rightarrow> pyval \<Rightarrow> world \<Rightarrow> (error + string) \<times> world" where
  "geturl wiki s w =
     (case s of
        PStr n \<Rightarrow>
          (let q = quote n;
               url = search_url q;
               w1 = w\<lparr>trace := trace w @ [UrlOpen url]\<rparr>
           in (Inr (case wiki url of None \<Rightarrow> [] | Some wiki_url \<Rightarrow> wiki_url), w1))
      | _ \<Rightarrow> (Inl TypeError, w))"

section \<open>\<^verbatim>\<open>score\<close>\<close>

text \<open>
  \<open>ml\<close> is \<^verbatim>\<open>ml.predict([[lon, lat]])[0]\<close> of the fitted model, which may raise.
\<close>

definition score :: "(string \<Rightarrow> string \<Rightarrow> error + int) \<Rightarrow> (string \<Rightarrow> string option)
    \<Rightarrow> string \<Rightarrow> string \<Rightarrow> world \<Rightarrow> (error + dict) \<times> world" where
  "score ml wiki lon lat w =
     (case ml lon lat of
        Inl e \<Rightarrow> (Inl e, w)
      | Inr cl \<Rightarrow>
          let keys = columns w;
              rows = cql_select cl 1 w;
              w1 = w\<lparr>trace := trace w @ [Select cl 1]\<rparr>
          in case rows of
               [] \<Rightarrow> (Inl IndexError, w1)
             | r # _ \<Rightarrow>
                 let d = py_dict (zip keys r)
                 in case dict_get d ''url'' of
                      Inl e \<Rightarrow> (Inl e, w1)
                    | Inr u \<Rightarrow>
                        if u = PNone then
                          (case dict_get d ''name'' of
                             Inl e \<Rightarrow> (Inl e, w1)
                           | Inr nm \<Rightarrow>
                               (case geturl wiki nm w1 of
                                  (Inl e, w2) \<Rightarrow> (Inl e, w2)
                                | (Inr url, w2) \<Rightarrow>
                                    let d' = dict_set d ''url'' (PStr url)
                                    in case dict_get d' ''cid'' of
                                         Inl e \<Rightarrow> (Inl e, w2)
                                       | Inr c \<Rightarrow>
                                           (case cql_update url c w2 of
                                              (Inl e, w3) \<Rightarrow> (Inl e, w3)
                                            | (Inr _, w3) \<Rightarrow> (Inr d', w3))))
                        else (Inr d, w1))"

section \<open>Rendering\<close>

subsection \<open>\<^verbatim>\<open>json.dumps\<close> on a dictionary of \<open>pyval\<close>\<close>

text \<open>
  The default encoder: \<^verbatim>\<open>ensure_ascii=True\<close>, separators \<^verbatim>\<open>', '\<close> and \<^verbatim>\<open>': '\<close>. A character
  outside \<^verbatim>\<open>' '..'~'\<close> is written \<^verbatim>\<open>\uXXXX\<close> unless it has a short escape.
\<close>

definition hex4 :: "nat \<Rightarrow> string" where
  "hex4 n = [''0123456789abcdef'' ! (n div 4096 mod 16), ''0123456789abcdef'' ! (n div 256 mod 16),
             ''0123456789abcdef'' ! (n div 16 mod 16), ''0123456789abcdef'' ! (n mod 16)]"

definition esc :: "char \<Rightarrow> string" where
  "esc c =
     (if c = CHR 0x5C then [CHR 0x5C, CHR 0x5C]
      else if c = CHR 0x22 then [CHR 0x5C, CHR 0x22]
      else if c = CHR 0x08 then [CHR 0x5C, CHR ''b'']
      else if c = CHR 0x0C then [CHR 0x5C, CHR ''f'']
      else if c = CHR 0x0A then [CHR 0x5C, CHR ''n'']
      else if c = CHR 0x0D then [CHR 0x5C, CHR ''r'']
      else if c = CHR 0x09 then [CHR 0x5C, CHR ''t'']
      else if 32 \<le> (of_char c :: nat) \<and> (of_char c :: nat) \<le> 126 then [c]
      else CHR 0x5C # CHR ''u'' # hex4 (of_char c))"

definition json_str :: "string \<Rightarrow> string" where
  "json_str s = CHR 0x22 # concat (map esc s) @ [CHR 0x22]"

fun json_val :: "pyval \<Rightarrow> string" where
  "json_val PNone = ''null''"
| "json_val (PInt i) = str_int i"
| "json_val (PFloat r) =
     (if r = ''nan'' then ''NaN'' else if r = ''inf'' then ''Infinity''
      else if r = ''-inf'' then ''-Infinity'' else r)"
| "json_val (PStr s) = json_str s"

fun join_str :: "string \<Rightarrow> string list \<Rightarrow> string" where
  "join_str sep [] = []"
| "join_str sep [x] = x"
| "join_str sep (x # y # ys) = x @ sep @ join_str sep (y # ys)"

definition json_dumps :: "dict \<Rightarrow> string" where
  "json_dumps d = ''{'' @ join_str '', '' (map (\<lambda>(k, v). json_str k @ '': '' @ json_val v) d) @ ''}''"

subsection \<open>\<^verbatim>\<open>html_template\<close> and \<^verbatim>\<open>recommender\<close>\<close>

definition link :: "pyval \<Rightarrow> pyval \<Rightarrow> pyval" where
  \<open>link url text = (if truthy url then PStr (''<a href="'' @ py_str url @ ''">'' @ py_str text @ ''</a>'')
                    else text)\<close>

text \<open>
  \<^verbatim>\<open>html_template\<close> assigns \<^verbatim>\<open>d['url_html']\<close> on the dictionary it was given: the second
  component is that dictionary when the function ends.
\<close>

definition html_template :: "dict \<Rightarrow> (error + string) \<times> dict" where
  "html_template d =
     (case dict_get d ''url'' of
        Inl e \<Rightarrow> (Inl e, d)
      | Inr u \<Rightarrow>
          (case dict_get d ''name'' of
             Inl e \<Rightarrow> (Inl e, d)
           | Inr n \<Rightarrow>
               let d' = dict_set d ''url_html'' (link u n)
               in case dict_get d' ''url_html'' of
                    Inl e \<Rightarrow> (Inl e, d')
                  | Inr h \<Rightarrow> (Inr (''What about visiting the '' @ py_str h @ ''?''), d')))"

text \<open>
  Line 283, \<^verbatim>\<open>html_template(d) if format=='html' else json.dumps(d)\<close>, with the dictionary
  \<^verbatim>\<open>d\<close> as it is after the line.
\<close>

definition render :: "pyval \<Rightarrow> dict \<Rightarrow> (error + string) \<times> dict" where
  "render fmt d = (if fmt = PStr ''html'' then html_template d else (Inr (json_dumps d), d))"

datatype display = Str string | HTML string

definition recommender :: "(string \<Rightarrow> string \<Rightarrow> error + int) \<Rightarrow> (string \<Rightarrow> string option)
    \<Rightarrow> string \<Rightarrow> string \<Rightarrow> pyval \<Rightarrow> bool \<Rightarrow> world \<Rightarrow> (error + display) \<times> world" where
  "recommender ml wiki lon lat fmt notebook w =
     (case score ml wiki lon lat w of
        (Inl e, w1) \<Rightarrow> (Inl e, w1)
      | (Inr d, w1) \<Rightarrow>
          (case dict_get d ''name'' of
             Inl e \<Rightarrow> (Inl e, w1)
           | Inr name \<Rightarrow>
               (case dict_get d ''url'' of
                  Inl e \<Rightarrow> (Inl e, w1)
                | Inr url \<Rightarrow>
                    (case fst (render fmt d) of
                       Inl e \<Rightarrow> (Inl e, w1)
                     | Inr output \<Rightarrow> (Inr (if notebook then HTML output else Str output), w1)))))"

section \<open>The REST service\<close>

text \<open>
  \<open>py_float\<close> is Python's \<^verbatim>\<open>float\<close> on text: \<open>None\<close> where it raises \<open>ValueError\<close>.
\<close>

definition recommender_api :: "(string \<Rightarrow> string \<Rightarrow> error + int) \<Rightarrow> (string \<Rightarrow> string option)
    \<Rightarrow> (string \<Rightarrow> string option) \<Rightarrow> string \<Rightarrow> string \<Rightarrow> world \<Rightarrow> (error + display) \<times> world" where
  "recommender_api ml wiki py_float lon lat w =
     (case py_float lon of
        None \<Rightarrow> (Inl ValueError, w)
      | Some x \<Rightarrow>
          (case py_float lat of
             None \<Rightarrow> (Inl ValueError, w)
           | Some y \<Rightarrow> recommender ml wiki x y (PStr ''json'') False w))"

section \<open>A store for the examples\<close>

definition cols0 :: "string list" where
  "cols0 = [''cid'', ''count'', ''lat'', ''lon'', ''name'', ''url'']"

definition ml0 :: "string \<Rightarrow> string \<Rightarrow> error + int" where
  "ml0 lon lat = (if lon = ''-74.01'' then Inr 16 else if lon = ''-74.97'' then Inr 7 else Inr 3)"

definition wiki_down :: "string \<Rightarrow> string option" where
  "wiki_down url = None"

definition wiki_up :: "string \<Rightarrow> string option" where
  "wiki_up url =
     (if url = ''https://en.wikipedia.org/w/api.php?action=opensearch&search=Battery%20Park&limit=1&format=json''
      then Some ''https://en.wikipedia.org/wiki/Battery_Park'' else None)"

definition row16 :: "pyval list" where
  "row16 = [PInt 16, PInt 133, PFloat ''40.7034970026'', PFloat ''-74.0160512924'',
            PStr ''Battery Park'', PNone]"

definition row7 :: "pyval list" where
  "row7 = [PInt 7, PInt 52, PFloat ''40.7736'', PFloat ''-73.964'',
           PStr ''Whitney Museum of Art'', PStr ''h'']"

definition w0 :: world where
  "w0 = \<lparr>columns = cols0, table = [row16, row7], trace = []\<rparr>"

definition row_unnamed :: "pyval list" where
  "row_unnamed = [PInt 3, PInt 1, PFloat ''40.55'', PFloat ''-74.0'', PNone, PNone]"

definition w0_unnamed :: world where
  "w0_unnamed = \<lparr>columns = cols0, table = [row_unnamed], trace = []\<rparr>"

definition ml_down :: "string \<Rightarrow> string \<Rightarrow> error + int" where
  "ml_down lon lat = Inl ValueError"

definition wiki_apos :: "string \<Rightarrow> string option" where
  "wiki_apos url = Some (''https://en.wikipedia.org/wiki/O'' @ [CHR 0x27] @ ''Hare'')"

definition float0 :: "string \<Rightarrow> string option" where
  "float0 s = (if s \<in> {''-74.01'', ''40.7'', ''-74.97'', ''41.51'', ''40.55'', ''40.7034970026'',
                          ''-74.0160512924'', ''40.7736'', ''-73.964''} then Some s
               else if s = ''-74'' then Some ''-74.0'' else None)"

definition rec16 :: dict where
  "rec16 = [(''cid'', PInt 16), (''count'', PInt 133), (''lat'', PFloat ''40.7034970026''),
            (''lon'', PFloat ''-74.0160512924''), (''name'', PStr ''Battery Park''),
            (''url'', PStr ''https://en.wikipedia.org/wiki/Battery_Park'')]"

definition rec_blank :: dict where
  "rec_blank = [(''cid'', PInt 16), (''count'', PInt 133), (''lat'', PFloat ''40.7034970026''),
                (''lon'', PFloat ''-74.0160512924''), (''name'', PStr ''Battery Park''),
                (''url'', PStr [])]"

definition w0_linked :: world where
  "w0_linked =
     \<lparr>columns = cols0,
      table = [[PInt 16, PInt 133, PFloat ''40.7034970026'', PFloat ''-74.0160512924'',
                PStr ''Battery Park'', PStr ''https://en.wikipedia.org/wiki/Battery_Park''], row7],
      trace = [Select 16 1, UrlOpen (search_url ''Battery%20Park''),
               Update ''https://en.wikipedia.org/wiki/Battery_Park'' (PInt 16)]\<rparr>"

section \<open>Requests over time\<close>

text \<open>
  \<open>cached_empty cl w\<close>: the row that the lookup for cluster \<open>cl\<close> returns in \<open>w\<close> has the empty
  string as its link. \<open>requests\<close> runs \<open>score\<close> for a list of requests, one after the other,
  each with the external service as it is at that time; a request that fails does not stop
  the service.
\<close>

definition cached_empty :: "int \<Rightarrow> world \<Rightarrow> bool" where
  "cached_empty cl w =
     (case cql_select cl 1 w of
        [] \<Rightarrow> False
      | r # _ \<Rightarrow> dict_get (py_dict (zip (columns w) r)) ''url'' = Inr (PStr []))"

fun requests :: "(string \<Rightarrow> string \<Rightarrow> error + int)
    \<Rightarrow> ((string \<Rightarrow> string option) \<times> string \<times> string) list \<Rightarrow> world \<Rightarrow> world" where
  "requests ml [] w = w"
| "requests ml ((wiki, lon, lat) # qs) w = requests ml qs (snd (score ml wiki lon lat w))"

section \<open>Reading a rendered record back\<close>

text \<open>
  The decoder that the round trip of the structured format is stated with. It reads the
  documents that \<open>json_dumps\<close> writes for a dictionary of \<open>pyval\<close>: one object whose members
  are separated by \<^verbatim>\<open>', '\<close> and \<^verbatim>\<open>': '\<close>, with strings, integers, \<^verbatim>\<open>null\<close> and floats
  as values, and gives the pairs to \<open>py_dict\<close> as Python's decoder gives them to
  \<^verbatim>\<open>dict\<close>. On any other text it returns \<open>None\<close>, also where Python's \<^verbatim>\<open>json.loads\<close>
  accepts the text (other white space, nested values, code points from 256 on). A token
  that is neither a string, \<^verbatim>\<open>null\<close> nor an integer is a float: \<^verbatim>\<open>NaN\<close>, \<^verbatim>\<open>Infinity\<close>
  and \<^verbatim>\<open>-Infinity\<close> are the three constants, any other token goes to \<open>py_float\<close>,
  Python's \<^verbatim>\<open>float\<close>.
\<close>

definition hexval :: "char \<Rightarrow> nat option" where
  "hexval c = (let n = of_char c in
     if 48 \<le> n \<and> n \<le> 57 then Some (n - 48)
     else if 97 \<le> n \<and> n \<le> 102 then Some (n - 87)
     else if 65 \<le> n \<and> n \<le> 70 then Some (n - 55)
     else None)"

definition unesc_char :: "char \<Rightarrow> char option" where
  "unesc_char e =
     (if e = CHR 0x22 then Some (CHR 0x22)
      else if e = CHR 0x5C then Some (CHR 0x5C)
      else if e = CHR ''/'' then Some (CHR ''/'')
      else if e = CHR ''b'' then Some (CHR 0x08)
      else if e = CHR ''f'' then Some (CHR 0x0C)
      else if e = CHR ''n'' then Some (CHR 0x0A)
      else if e = CHR ''r'' then Some (CHR 0x0D)
      else if e = CHR ''t'' then Some (CHR 0x09)
      else None)"

definition unhex4 :: "char \<Rightarrow> char \<Rightarrow> char \<Rightarrow> char \<Rightarrow> char option" where
  "unhex4 a b c d =
     (case (hexval a, hexval b, hexval c, hexval d) of
        (Some x, Some y, Some z, Some u) \<Rightarrow>
          (let n = ((x * 16 + y) * 16 + z) * 16 + u in if n < 256 then Some (char_of n) else None)
      | _ \<Rightarrow> None)"

definition cons_fst :: "char \<Rightarrow> (string \<times> string) option \<Rightarrow> (string \<times> string) option" where
  "cons_fst c p = map_option (\<lambda>(s, rest). (c # s, rest)) p"

text \<open>\<open>scan_string\<close> reads a string after its opening quote: the text, and what follows the closing quote.\<close>

fun scan_string :: "string \<Rightarrow> (string \<times> string) option" where
  "scan_string [] = None"
| "scan_string (c # cs) =
     (if c = CHR 0x22 then Some ([], cs)
      else if c = CHR 0x5C then
        (case cs of
           [] \<Rightarrow> None
         | e # r \<Rightarrow>
             if e = CHR ''u'' then
               (case r of
                  a # b # c' # d # rest \<Rightarrow>
                    (case unhex4 a b c' d of None \<Rightarrow> None | Some x \<Rightarrow> cons_fst x (scan_string rest))
                | _ \<Rightarrow> None)
             else (case unesc_char e of None \<Rightarrow> None | Some x \<Rightarrow> cons_fst x (scan_string r)))
      else cons_fst c (scan_string cs))"

definition is_digit :: "char \<Rightarrow> bool" where
  "is_digit c = (48 \<le> (of_char c :: nat) \<and> (of_char c :: nat) \<le> 57)"

definition nat_of_digits :: "string \<Rightarrow> nat" where
  "nat_of_digits ds = foldl (\<lambda>a c. 10 * a + (of_char c - 48)) 0 ds"

text \<open>The integers of JSON: \<^verbatim>\<open>-?(0|[1-9][0-9]*)\<close>.\<close>

definition is_nat_lit :: "string \<Rightarrow> bool" where
  "is_nat_lit ds = (ds = ''0'' \<or> (ds \<noteq> [] \<and> list_all is_digit ds \<and> hd ds \<noteq> CHR ''0''))"

definition is_int_lit :: "string \<Rightarrow> bool" where
  "is_int_lit tok = (case tok of [] \<Rightarrow> False
                     | c # cs \<Rightarrow> if c = CHR ''-'' then is_nat_lit cs else is_nat_lit tok)"

definition int_of_lit :: "string \<Rightarrow> int" where
  "int_of_lit tok = (case tok of [] \<Rightarrow> 0
                     | c # cs \<Rightarrow> if c = CHR ''-'' then - int (nat_of_digits cs) else int (nat_of_digits tok))"

definition parse_scalar :: "(string \<Rightarrow> string option) \<Rightarrow> string \<Rightarrow> pyval option" where
  "parse_scalar py_float tok =
     (if tok = ''null'' then Some PNone
      else if is_int_lit tok then Some (PInt (int_of_lit tok))
      else if tok = ''NaN'' then Some (PFloat ''nan'')
      else if tok = ''Infinity'' then Some (PFloat ''inf'')
      else if tok = ''-Infinity'' then Some (PFloat ''-inf'')
      else map_option PFloat (py_float tok))"

definition in_token :: "char \<Rightarrow> bool" where
  "in_token c = (c \<noteq> CHR '','' \<and> c \<noteq> CHR ''}'')"

definition parse_val :: "(string \<Rightarrow> string option) \<Rightarrow> string \<Rightarrow> (pyval \<times> string) option" where
  "parse_val py_float s =
     (case s of
        [] \<Rightarrow> None
      | c # cs \<Rightarrow>
          if c = CHR 0x22 then map_option (\<lambda>(t, rest). (PStr t, rest)) (scan_string cs)
          else map_option (\<lambda>v. (v, dropWhile in_token s)) (parse_scalar py_float (takeWhile in_token s)))"

text \<open>
  The members of the object, the opening brace read: \<open>fuel\<close> bounds the number of members
  (the length of the text is enough).
\<close>

fun parse_members :: "nat \<Rightarrow> (string \<Rightarrow> string option) \<Rightarrow> string \<Rightarrow> (string \<times> pyval) list option" where
  "parse_members 0 py_float s = None"
| "parse_members (Suc fuel) py_float s =
     (case s of
        [] \<Rightarrow> None
      | c # cs \<Rightarrow>
          if c \<noteq> CHR 0x22 then None
          else (case scan_string cs of
                  None \<Rightarrow> None
                | Some (k, r1) \<Rightarrow>
                    (case r1 of
                       c1 # c2 # r2 \<Rightarrow>
                         if c1 \<noteq> CHR '':'' \<or> c2 \<noteq> CHR '' '' then None
                         else (case parse_val py_float r2 of
                                 None \<Rightarrow> None
                               | Some (v, r3) \<Rightarrow>
                                   if r3 = ''}'' then Some [(k, v)]
                                   else (case r3 of
                                           c3 # c4 # r4 \<Rightarrow>
                                             if c3 \<noteq> CHR '','' \<or> c4 \<noteq> CHR '' '' then None
                                             else map_option ((#) (k, v)) (parse_members fuel py_float r4)
                                         | _ \<Rightarrow> None))
                     | _ \<Rightarrow> None)))"

definition json_loads :: "(string \<Rightarrow> string option) \<Rightarrow> string \<Rightarrow> dict option" where
  "json_loads py_float s =
     (case s of
        [] \<Rightarrow> None
      | c # cs \<Rightarrow>
          if c \<noteq> CHR ''{'' then None
          else if cs = ''}'' then Some []
          else map_option py_dict (parse_members (length cs) py_float cs))"

text \<open>
  What \<^verbatim>\<open>repr\<close> prints for a float: \<^verbatim>\<open>nan\<close>, \<^verbatim>\<open>inf\<close>, \<^verbatim>\<open>-inf\<close>, or digits with a point
  or an exponent, which \<^verbatim>\<open>float\<close> reads back as the same float.
\<close>

definition is_float_char :: "char \<Rightarrow> bool" where
  "is_float_char c = (is_digit c \<or> c = CHR ''.'' \<or> c = CHR ''e'' \<or> c = CHR ''+'' \<or> c = CHR ''-'')"

definition is_float_repr :: "(string \<Rightarrow> string option) \<Rightarrow> string \<Rightarrow> bool" where
  "is_float_repr py_float r =
     (r = ''nan'' \<or> r = ''inf'' \<or> r = ''-inf''
      \<or> (list_all is_float_char r \<and> (CHR ''.'' \<in> set r \<or> CHR ''e'' \<in> set r)
          \<and> py_float r = Some r))"

fun val_ok :: "(string \<Rightarrow> string option) \<Rightarrow> pyval \<Rightarrow> bool" where
  "val_ok py_float (PFloat r) = is_float_repr py_float r"
| "val_ok py_float v = True"

text \<open>The text of one member, as \<open>json_dumps\<close> writes it.\<close>

definition member_text :: "string \<times> pyval \<Rightarrow> string" where
  "member_text p = json_str (fst p) @ '': '' @ json_val (snd p)"

section \<open>Facts about the dictionary operations\<close>

declare digits.simps [simp del]

lemma dict_get_Inr_iff: "dict_get d k = Inr v \<longleftrightarrow> map_of d k = Some v"
  by (simp add: dict_get_def split: option.splits)

lemma dict_set_fresh: "map_of d k = None \<Longrightarrow> dict_set d k v = d @ [(k, v)]"
  unfolding dict_set_def by (induction d) (auto split: if_splits)

lemma foldl_dict_set_distinct:
  "distinct (map fst (acc @ ps)) \<Longrightarrow> foldl (\<lambda>d (k, v). dict_set d k v) acc ps = acc @ ps"
proof (induction ps arbitrary: acc)
  case Nil
  then show ?case by simp
next
  case (Cons p ps)
  obtain k v where p: "p = (k, v)" by (cases p)
  from Cons.prems p have "map_of acc k = None"
    by (auto simp: map_of_eq_None_iff)
  then have "dict_set acc k v = acc @ [(k, v)]" by (rule dict_set_fresh)
  with Cons.IH[of "acc @ [(k, v)]"] Cons.prems p show ?case by simp
qed

lemma py_dict_distinct: "distinct (map fst ps) \<Longrightarrow> py_dict ps = ps"
  using foldl_dict_set_distinct[of "[]" ps] by (simp add: py_dict_def)

lemma distinct_zip_keys: "distinct cols \<Longrightarrow> distinct (map fst (zip cols r))"
  by (simp add: map_fst_zip_take distinct_take)

lemma py_dict_zip: "distinct cols \<Longrightarrow> py_dict (zip cols r) = zip cols r"
  by (simp add: py_dict_distinct distinct_zip_keys)

lemma foldl_dict_set_keys:
  "distinct (map fst acc) \<Longrightarrow> distinct (map fst (foldl (\<lambda>d (k, v). dict_set d k v) acc ps))"
  by (induction ps arbitrary: acc) (auto simp: dict_set_def distinct_update)

lemma py_dict_keys_distinct: "distinct (map fst (py_dict ps))"
  using foldl_dict_set_keys[of "[]" ps] by (simp add: py_dict_def)

lemma dict_set_keys_distinct: "distinct (map fst d) \<Longrightarrow> distinct (map fst (dict_set d k v))"
  by (simp add: dict_set_def distinct_update)

lemma map_of_dict_set: "map_of (dict_set d k v) = (map_of d)(k \<mapsto> v)"
  by (simp add: dict_set_def update_conv')

lemma dict_get_dict_set: "dict_get (dict_set d k v) k' = (if k' = k then Inr v else dict_get d k')"
  by (simp add: dict_get_def map_of_dict_set)

lemma cql_select_limit_one: "cql_select cl 1 w = r # rs \<Longrightarrow> rs = [] \<and> row_cid (columns w) r = Some (PInt cl)"
proof -
  assume a: "cql_select cl 1 w = r # rs"
  let ?f = "filter (\<lambda>r. row_cid (columns w) r = Some (PInt cl)) (table w)"
  from a have t: "take 1 ?f = r # rs" by (simp add: cql_select_def)
  then have "?f \<noteq> []" by auto
  then obtain x xs where f: "?f = x # xs" by (cases ?f) auto
  with t have "x = r" "rs = []" by auto
  moreover from f have "x \<in> set ?f" by simp
  ultimately show ?thesis by auto
qed

lemma cql_select_empty:
  "cql_select cl 1 w = [] \<longleftrightarrow> (\<forall>r \<in> set (table w). row_cid (columns w) r \<noteq> Some (PInt cl))"
  by (auto simp: cql_select_def filter_empty_conv)

lemma col_index_Some: "k \<in> set cols \<Longrightarrow> \<exists>i. col_index k cols = Some i"
  by (induction cols) auto

lemma col_index_of_zip: "map_of (zip cols r) k = Some v \<Longrightarrow> col_index k cols \<noteq> None"
  using col_index_Some[of k cols] by (auto dest!: map_of_SomeD set_zip_leftD)

lemma foldl_dict_set_absent:
  "k \<notin> fst ` set ps \<Longrightarrow> map_of acc k = None \<Longrightarrow> map_of (foldl (\<lambda>d (k, v). dict_set d k v) acc ps) k = None"
  by (induction ps arbitrary: acc) (auto simp: map_of_dict_set)

lemma py_dict_absent: "k \<notin> fst ` set ps \<Longrightarrow> map_of (py_dict ps) k = None"
  by (simp add: py_dict_def foldl_dict_set_absent)

section \<open>Facts about the store\<close>

lemma zip_update_other:
  "col_index k cols = Some i \<Longrightarrow> k' \<noteq> k \<Longrightarrow> map_of (zip cols (r[i := v])) k' = map_of (zip cols r) k'"
proof (induction cols arbitrary: r i)
  case Nil
  then show ?case by simp
next
  case (Cons c cs)
  show ?case
  proof (cases r)
    case Nil
    then show ?thesis by simp
  next
    case (Cons x xs)
    with Cons.prems Cons.IH show ?thesis
      by (cases i) (auto split: if_splits)
  qed
qed

lemma zip_update_same:
  "col_index k cols = Some i \<Longrightarrow> map_of (zip cols r) k = Some v \<Longrightarrow> map_of (zip cols (r[i := v'])) k = Some v'"
proof (induction cols arbitrary: r i)
  case Nil
  then show ?case by simp
next
  case (Cons c cs)
  show ?case
  proof (cases r)
    case Nil
    with Cons.prems show ?thesis by simp
  next
    case (Cons x xs)
    with Cons.prems Cons.IH show ?thesis
      by (cases i) (auto split: if_splits)
  qed
qed

lemma row_cid_set_url: "row_cid cols (set_url cols u r) = row_cid cols r"
  by (auto simp: row_cid_def set_url_def zip_update_other split: option.splits)

lemma row_cid_new_row:
  "row_cid cols (map (\<lambda>k. if k = ''cid'' then PInt c else if k = ''url'' then PStr u else PNone) cols)
     = (if ''cid'' \<in> set cols then Some (PInt c) else None)"
  by (simp add: row_cid_def map_of_zip_map)

lemma filter_upsert_other:
  assumes "c \<noteq> cl"
  shows "filter (\<lambda>r. row_cid cols r = Some (PInt cl)) (upsert_url cols u c rs)
           = filter (\<lambda>r. row_cid cols r = Some (PInt cl)) rs"
proof -
  have "filter (\<lambda>r. row_cid cols r = Some (PInt cl))
          (map (\<lambda>r. if row_cid cols r = Some (PInt c) then set_url cols u r else r) rs)
        = filter (\<lambda>r. row_cid cols r = Some (PInt cl)) rs"
    using assms by (induction rs) (auto simp: row_cid_set_url)
  then show ?thesis
    using assms by (simp add: upsert_url_def row_cid_new_row)
qed

lemma filter_upsert_same:
  assumes "filter (\<lambda>r. row_cid cols r = Some (PInt cl)) rs = r # rest"
  shows "filter (\<lambda>r. row_cid cols r = Some (PInt cl)) (upsert_url cols u cl rs)
           = map (set_url cols u) (r # rest)"
proof -
  from assms have "r \<in> set (filter (\<lambda>r. row_cid cols r = Some (PInt cl)) rs)" by simp
  then have ex: "\<exists>r \<in> set rs. row_cid cols r = Some (PInt cl)" by auto
  have "filter (\<lambda>r. row_cid cols r = Some (PInt cl))
          (map (\<lambda>r. if row_cid cols r = Some (PInt cl) then set_url cols u r else r) xs)
        = map (set_url cols u) (filter (\<lambda>r. row_cid cols r = Some (PInt cl)) xs)" for xs
    by (induction xs) (auto simp: row_cid_set_url)
  with ex assms show ?thesis by (simp add: upsert_url_def)
qed

lemma cql_select_cong:
  "columns v = columns w \<Longrightarrow> table v = table w \<Longrightarrow> cql_select cl lim v = cql_select cl lim w"
  by (simp add: cql_select_def)

section \<open>Facts about \<^verbatim>\<open>score\<close> and \<^verbatim>\<open>recommender\<close>\<close>

lemma score_Inr_has_url: "score ml wiki lon lat w = (Inr d, w1) \<Longrightarrow> \<exists>u. dict_get d ''url'' = Inr u"
  by (auto simp: score_def Let_def dict_get_dict_set
      split: sum.splits list.splits if_splits prod.splits)

lemma score_record_keys:
  assumes "score ml wiki lon lat w = (Inr d, w1)" and "k \<notin> set (columns w)"
  shows "map_of d k = None"
proof -
  have a: "map_of (py_dict (zip (columns w) r)) k = None" for r
    using assms(2) by (intro py_dict_absent) (auto dest: set_zip_leftD)
  from assms(1) obtain r u where "d = py_dict (zip (columns w) r) \<or> d = dict_set (py_dict (zip (columns w) r)) ''url'' (PStr u)"
    and "\<exists>x. dict_get (py_dict (zip (columns w) r)) ''url'' = Inr x"
    by (auto simp: score_def Let_def split: sum.splits list.splits if_splits prod.splits)
  moreover from this(2) assms(2) a have "k \<noteq> ''url''"
    by (auto simp: dict_get_Inr_iff)
  ultimately show ?thesis using a by (auto simp: map_of_dict_set)
qed

lemma score_columns: "columns (snd (score ml wiki lon lat w)) = columns w"
  by (auto simp: score_def Let_def geturl_def cql_update_def
      split: sum.splits list.splits if_splits prod.splits pyval.splits option.splits)

lemma score_table:
  "table (snd (score ml wiki lon lat w)) = table w
   \<or> (\<exists>cl0 r rs u c. ml lon lat = Inr cl0 \<and> cql_select cl0 1 w = r # rs
        \<and> dict_get (py_dict (zip (columns w) r)) ''url'' = Inr PNone
        \<and> dict_get (py_dict (zip (columns w) r)) ''cid'' = Inr (PInt c)
        \<and> table (snd (score ml wiki lon lat w)) = upsert_url (columns w) u c (table w))"
  by (auto simp: score_def Let_def geturl_def cql_update_def dict_get_dict_set
      split: sum.splits list.splits if_splits prod.splits pyval.splits option.splits)


lemma geturl_failure:
  "wiki (search_url (quote n)) = None \<Longrightarrow>
     geturl wiki (PStr n) v = (Inr [], v\<lparr>trace := trace v @ [UrlOpen (search_url (quote n))]\<rparr>)"
  by (simp add: geturl_def Let_def)

lemma score_external_failure:
  assumes "distinct (columns w)" and "ml lon lat = Inr cl" and "cql_select cl 1 w = r # rs"
    and "dict_get (py_dict (zip (columns w) r)) ''url'' = Inr PNone"
    and "dict_get (py_dict (zip (columns w) r)) ''name'' = Inr (PStr n)"
    and "wiki (search_url (quote n)) = None"
  shows "score ml wiki lon lat w
           = (Inr (dict_set (py_dict (zip (columns w) r)) ''url'' (PStr [])),
              w\<lparr>trace := trace w @ [Select cl 1, UrlOpen (search_url (quote n)), Update [] (PInt cl)],
                table := upsert_url (columns w) [] cl (table w)\<rparr>)"
proof -
  let ?d = "py_dict (zip (columns w) r)"
  have dz: "?d = zip (columns w) r" using assms(1) by (rule py_dict_zip)
  from cql_select_limit_one[OF assms(3)] have "row_cid (columns w) r = Some (PInt cl)" by simp
  then have cid: "dict_get ?d ''cid'' = Inr (PInt cl)"
    by (simp add: dz dict_get_def row_cid_def)
  from assms(4) have "map_of (zip (columns w) r) ''url'' = Some PNone"
    by (simp add: dz dict_get_Inr_iff)
  then have ci: "col_index ''url'' (columns w) \<noteq> None" by (rule col_index_of_zip)
  have upd: "cql_update [] (PInt cl) v
              = (Inr (), v\<lparr>trace := trace v @ [Update [] (PInt cl)],
                           table := upsert_url (columns v) [] cl (table v)\<rparr>)"
    if "columns v = columns w" for v
    using ci that by (simp add: cql_update_def Let_def)
  show ?thesis
    using assms(2,3,4,5) cid
    by (simp add: score_def Let_def geturl_failure[where wiki = wiki, OF assms(6)] upd dict_get_dict_set)
qed

lemma recommender_propagates:
  "score ml wiki lon lat w = (Inl e, w1) \<Longrightarrow> recommender ml wiki lon lat fmt nb w = (Inl e, w1)"
  by (simp add: recommender_def)

lemma recommender_json:
  assumes "fmt \<noteq> PStr ''html''" and "score ml wiki lon lat w = (Inr d, w1)"
    and "dict_get d ''name'' = Inr nm"
  shows "recommender ml wiki lon lat fmt nb w
           = (Inr (if nb then HTML (json_dumps d) else Str (json_dumps d)), w1)"
  using assms score_Inr_has_url[OF assms(2)]
  by (auto simp: recommender_def render_def)

lemma geturl_not_text: "\<forall>s. nm \<noteq> PStr s \<Longrightarrow> geturl wiki nm v = (Inl TypeError, v)"
  by (cases nm) (simp_all add: geturl_def)

lemma geturl_text: "\<exists>u. fst (geturl wiki (PStr m) v) = Inr u"
  by (simp add: geturl_def Let_def)

lemma score_model_error: "ml lon lat = Inl e \<Longrightarrow> score ml wiki lon lat w = (Inl e, w)"
  by (simp add: score_def)

lemma score_no_row:
  "ml lon lat = Inr cl \<Longrightarrow> cql_select cl 1 w = [] \<Longrightarrow>
     score ml wiki lon lat w = (Inl IndexError, w\<lparr>trace := trace w @ [Select cl 1]\<rparr>)"
  by (simp add: score_def Let_def)

lemma score_url_error:
  "ml lon lat = Inr cl \<Longrightarrow> cql_select cl 1 w = r # rs \<Longrightarrow>
   dict_get (py_dict (zip (columns w) r)) ''url'' = Inl e \<Longrightarrow>
     score ml wiki lon lat w = (Inl e, w\<lparr>trace := trace w @ [Select cl 1]\<rparr>)"
  by (simp add: score_def Let_def)

lemma score_name_error:
  "ml lon lat = Inr cl \<Longrightarrow> cql_select cl 1 w = r # rs \<Longrightarrow>
   dict_get (py_dict (zip (columns w) r)) ''url'' = Inr PNone \<Longrightarrow>
   dict_get (py_dict (zip (columns w) r)) ''name'' = Inl e \<Longrightarrow>
     score ml wiki lon lat w = (Inl e, w\<lparr>trace := trace w @ [Select cl 1]\<rparr>)"
  by (simp add: score_def Let_def)

lemma score_name_not_text:
  "ml lon lat = Inr cl \<Longrightarrow> cql_select cl 1 w = r # rs \<Longrightarrow>
   dict_get (py_dict (zip (columns w) r)) ''url'' = Inr PNone \<Longrightarrow>
   dict_get (py_dict (zip (columns w) r)) ''name'' = Inr nm \<Longrightarrow> \<forall>s. nm \<noteq> PStr s \<Longrightarrow>
     score ml wiki lon lat w = (Inl TypeError, w\<lparr>trace := trace w @ [Select cl 1]\<rparr>)"
  by (simp add: score_def Let_def geturl_not_text)

lemma score_update_error:
  assumes "ml lon lat = Inr cl" and "cql_select cl 1 w = r # rs"
    and "dict_get (py_dict (zip (columns w) r)) ''url'' = Inr PNone"
    and "dict_get (py_dict (zip (columns w) r)) ''name'' = Inr (PStr m)"
    and "u = (case wiki (search_url (quote m)) of None \<Rightarrow> [] | Some x \<Rightarrow> x)"
    and "dict_get (dict_set (py_dict (zip (columns w) r)) ''url'' (PStr u)) ''cid'' = Inr c"
    and "cql_update u c (w\<lparr>trace := trace w @ [Select cl 1, UrlOpen (search_url (quote m))]\<rparr>) = (Inl e, w2)"
  shows "score ml wiki lon lat w = (Inl e, w2)"
  using assms by (simp add: score_def Let_def geturl_def)

lemma recommender_name_error:
  "score ml wiki lon lat w = (Inr d, w2) \<Longrightarrow> dict_get d ''name'' = Inl e \<Longrightarrow>
     recommender ml wiki lon lat fmt nb w = (Inl e, w2)"
  by (simp add: recommender_def)

lemma recommender_api_propagates:
  "pf slon = Some lon \<Longrightarrow> pf slat = Some lat \<Longrightarrow> score ml wiki lon lat w = (Inl e, w2) \<Longrightarrow>
     recommender_api ml wiki pf slon slat w = (Inl e, w2)"
  by (simp add: recommender_api_def recommender_propagates)

lemma recommender_api_parse_error:
  "pf slon = None \<or> pf slat = None \<Longrightarrow> recommender_api ml wiki pf slon slat w = (Inl ValueError, w)"
  by (auto simp: recommender_api_def split: option.splits)

lemma score_example: "score ml0 wiki_up ''-74.01'' ''40.7'' w0 = (Inr rec16, w0_linked)"
  by code_simp

section \<open>Facts about the cached empty link\<close>

lemma cached_empty_cong:
  "columns v = columns w \<Longrightarrow> table v = table w \<Longrightarrow> cached_empty cl v = cached_empty cl w"
  by (simp add: cached_empty_def cql_select_cong[of v w] cong: list.case_cong)

lemma cached_empty_score:
  assumes "distinct (columns w)" and "cached_empty cl w"
  shows "cached_empty cl (snd (score ml wiki lon lat w))"
proof -
  let ?v = "snd (score ml wiki lon lat w)"
  have cols: "columns ?v = columns w" by (rule score_columns)
  from score_table[of ml wiki lon lat w] show ?thesis
  proof
    assume "table ?v = table w"
    with cols assms(2) show ?thesis using cached_empty_cong[of ?v w cl] by simp
  next
    assume "\<exists>cl0 r rs u c. ml lon lat = Inr cl0 \<and> cql_select cl0 1 w = r # rs
        \<and> dict_get (py_dict (zip (columns w) r)) ''url'' = Inr PNone
        \<and> dict_get (py_dict (zip (columns w) r)) ''cid'' = Inr (PInt c)
        \<and> table ?v = upsert_url (columns w) u c (table w)"
    then obtain cl0 r rs u c where sel: "cql_select cl0 1 w = r # rs"
      and url: "dict_get (py_dict (zip (columns w) r)) ''url'' = Inr PNone"
      and cid: "dict_get (py_dict (zip (columns w) r)) ''cid'' = Inr (PInt c)"
      and tab: "table ?v = upsert_url (columns w) u c (table w)"
      by blast
    from cql_select_limit_one[OF sel] have "row_cid (columns w) r = Some (PInt cl0)" by simp
    with cid assms(1) have c: "c = cl0"
      by (simp add: py_dict_zip dict_get_def row_cid_def)
    have ne: "cl0 \<noteq> cl"
    proof
      assume "cl0 = cl"
      with sel url assms(2) show False by (simp add: cached_empty_def)
    qed
    have "cql_select cl 1 ?v = cql_select cl 1 w"
      using ne by (simp add: cql_select_def cols tab c filter_upsert_other)
    with assms(2) cols show ?thesis by (simp add: cached_empty_def cong: list.case_cong)
  qed
qed

lemma requests_columns: "columns (requests ml qs w) = columns w"
  by (induction ml qs w rule: requests.induct) (simp_all add: score_columns)

lemma cached_empty_requests:
  "distinct (columns w) \<Longrightarrow> cached_empty cl w \<Longrightarrow> cached_empty cl (requests ml qs w)"
  by (induction ml qs w rule: requests.induct) (simp_all add: score_columns cached_empty_score)

lemma cached_empty_request:
  assumes "cached_empty cl w" and "ml lon lat = Inr cl"
  shows "\<exists>d. score ml wiki lon lat w = (Inr d, w\<lparr>trace := trace w @ [Select cl 1]\<rparr>)
             \<and> dict_get d ''url'' = Inr (PStr [])"
proof -
  from assms(1) obtain r rs where sel: "cql_select cl 1 w = r # rs"
    and url: "dict_get (py_dict (zip (columns w) r)) ''url'' = Inr (PStr [])"
    by (auto simp: cached_empty_def split: list.splits)
  with assms(2) have "score ml wiki lon lat w
      = (Inr (py_dict (zip (columns w) r)), w\<lparr>trace := trace w @ [Select cl 1]\<rparr>)"
    by (simp add: score_def Let_def)
  with url show ?thesis by blast
qed

section \<open>Facts about decimal numerals\<close>

lemma hexdigit_table: "\<forall>k \<in> set [0..<16]. hexval (''0123456789abcdef'' ! k) = Some k"
  by code_simp

lemma hexval_hexdigit: "k < 16 \<Longrightarrow> hexval (''0123456789abcdef'' ! k) = Some k"
  using hexdigit_table by simp

lemma digit_table:
  "\<forall>k \<in> set [0..<10]. is_digit (''0123456789'' ! k) \<and> (of_char (''0123456789'' ! k) :: nat) - 48 = k
      \<and> ((''0123456789'' ! k = CHR ''0'') = (k = 0))"
  by code_simp

lemma digit_char:
  assumes "k < 10"
  shows "is_digit (''0123456789'' ! k)" and "(of_char (''0123456789'' ! k) :: nat) - 48 = k"
    and "(''0123456789'' ! k = CHR ''0'') = (k = 0)"
  using digit_table assms by simp_all

lemma digits_nonempty: "digits n \<noteq> []"
  by (subst digits.simps) simp

lemma digits_all_digit: "list_all is_digit (digits n)"
proof (induction n rule: digits.induct)
  case (1 n)
  show ?case
  proof (cases "n < 10")
    case True
    then show ?thesis by (subst digits.simps) (simp add: digit_char(1))
  next
    case False
    with 1 show ?thesis by (subst digits.simps) (simp add: digit_char(1))
  qed
qed

lemma digits_hd: "hd (digits n) = CHR ''0'' \<longleftrightarrow> n = 0"
proof (induction n rule: digits.induct)
  case (1 n)
  show ?case
  proof (cases "n < 10")
    case True
    then show ?thesis by (subst digits.simps) (simp add: digit_char(3))
  next
    case False
    then have "n div 10 \<noteq> 0" by simp
    with False 1 show ?thesis by (subst digits.simps) (simp add: digits_nonempty)
  qed
qed

lemma nat_of_digits_snoc: "nat_of_digits (ds @ [c]) = 10 * nat_of_digits ds + (of_char c - 48)"
  by (simp add: nat_of_digits_def)

lemma nat_of_digits_digits: "nat_of_digits (digits n) = n"
proof (induction n rule: digits.induct)
  case (1 n)
  show ?case
  proof (cases "n < 10")
    case True
    then show ?thesis by (subst digits.simps) (simp add: nat_of_digits_def digit_char(2))
  next
    case False
    with 1 show ?thesis by (subst digits.simps) (simp add: nat_of_digits_snoc digit_char(2))
  qed
qed

lemma is_nat_lit_digits: "is_nat_lit (digits n)"
proof (cases "n = 0")
  case True
  then show ?thesis by (simp add: is_nat_lit_def digits.simps)
next
  case False
  then show ?thesis by (simp add: is_nat_lit_def digits_nonempty digits_all_digit digits_hd)
qed

lemma digits_hd_not_minus: "hd (digits n) \<noteq> CHR ''-''"
proof -
  from digits_all_digit[of n] digits_nonempty[of n] have "is_digit (hd (digits n))"
    by (cases "digits n") simp_all
  then show ?thesis by (auto simp: is_digit_def)
qed

lemma is_int_lit_str_int: "is_int_lit (str_int i)"
proof (cases "i < 0")
  case True
  then show ?thesis by (simp add: str_int_def is_int_lit_def is_nat_lit_digits)
next
  case False
  obtain c cs where d: "digits (nat i) = c # cs" using digits_nonempty[of "nat i"] by (cases "digits (nat i)") auto
  with digits_hd_not_minus[of "nat i"] have "c \<noteq> CHR ''-''" by simp
  with False d is_nat_lit_digits[of "nat i"] show ?thesis by (simp add: str_int_def is_int_lit_def)
qed

lemma int_of_lit_str_int: "int_of_lit (str_int i) = i"
proof (cases "i < 0")
  case True
  then show ?thesis by (simp add: str_int_def int_of_lit_def nat_of_digits_digits)
next
  case False
  obtain c cs where d: "digits (nat i) = c # cs" using digits_nonempty[of "nat i"] by (cases "digits (nat i)") auto
  with digits_hd_not_minus[of "nat i"] have "c \<noteq> CHR ''-''" by simp
  with False d nat_of_digits_digits[of "nat i"] show ?thesis by (simp add: str_int_def int_of_lit_def)
qed

lemma is_digit_in_token: "is_digit c \<Longrightarrow> in_token c \<and> c \<noteq> CHR 0x22 \<and> c \<noteq> CHR ''n''"
  by (auto simp: is_digit_def in_token_def)

lemma digits_in_token: "list_all in_token (digits n)"
  using digits_all_digit[of n] by (induction "digits n" arbitrary: n) (auto simp: list_all_iff is_digit_in_token)

section \<open>Facts about the strings of JSON\<close>

lemma hex4_small: "(n::nat) < 256 \<Longrightarrow> n div 4096 mod 16 = 0 \<and> n div 256 mod 16 = 0"
  by simp

lemma hex_recombine: "(n::nat) < 256 \<Longrightarrow> n div 16 mod 16 * 16 + n mod 16 = n"
proof -
  assume "n < 256"
  then have "n div 16 < 16" by simp
  then have "n div 16 mod 16 = n div 16" by simp
  then show ?thesis by simp
qed

lemma unhex4_hex4:
  assumes "n < 256"
  shows "unhex4 (hex4 n ! 0) (hex4 n ! 1) (hex4 n ! 2) (hex4 n ! 3) = Some (char_of n)"
proof -
  have h0: "hexval (CHR ''0'') = Some 0" by (simp add: hexval_def)
  have lt: "n div 16 mod 16 < 16" "n mod 16 < 16" by simp_all
  have h: "hex4 n = [CHR ''0'', CHR ''0'', ''0123456789abcdef'' ! (n div 16 mod 16), ''0123456789abcdef'' ! (n mod 16)]"
    using hex4_small[OF assms] by (simp add: hex4_def)
  have "unhex4 (CHR ''0'') (CHR ''0'') (''0123456789abcdef'' ! (n div 16 mod 16)) (''0123456789abcdef'' ! (n mod 16))
          = Some (char_of n)"
    unfolding unhex4_def h0 hexval_hexdigit[OF lt(1)] hexval_hexdigit[OF lt(2)]
    using assms hex_recombine[OF assms] by (simp add: Let_def)
  then show ?thesis unfolding h by simp
qed

lemma scan_esc: "scan_string (esc c @ xs) = cons_fst c (scan_string xs)"
proof -
  let ?n = "of_char c :: nat"
  have n: "?n < 256" by simp
  have u: "scan_string (CHR 0x5C # CHR ''u'' # hex4 ?n @ xs) = cons_fst c (scan_string xs)"
  proof -
    obtain a b c' d where h: "hex4 ?n = [a, b, c', d]" by (simp add: hex4_def)
    with unhex4_hex4[OF n] have "unhex4 a b c' d = Some c" by simp
    with h show ?thesis by simp
  qed
  have s1: "scan_string (CHR 0x5C # e # xs) = cons_fst x (scan_string xs)"
    if "e \<noteq> CHR ''u''" "unesc_char e = Some x" for e x
    using that by simp
  have lit: "scan_string (c # xs) = cons_fst c (scan_string xs)"
    if "c \<noteq> CHR 0x22" "c \<noteq> CHR 0x5C"
    using that by simp
  consider "c = CHR 0x5C" | "c = CHR 0x22" | "c = CHR 0x08" | "c = CHR 0x0C" | "c = CHR 0x0A"
    | "c = CHR 0x0D" | "c = CHR 0x09"
    | "c \<noteq> CHR 0x5C" "c \<noteq> CHR 0x22" "c \<noteq> CHR 0x08" "c \<noteq> CHR 0x0C" "c \<noteq> CHR 0x0A"
      "c \<noteq> CHR 0x0D" "c \<noteq> CHR 0x09"
    by blast
  then show ?thesis
  proof cases
    case 1 then show ?thesis by (simp add: esc_def unesc_char_def)
  next
    case 2 then show ?thesis by (simp add: esc_def unesc_char_def)
  next
    case 3 then show ?thesis by (simp add: esc_def unesc_char_def)
  next
    case 4 then show ?thesis by (simp add: esc_def unesc_char_def)
  next
    case 5 then show ?thesis by (simp add: esc_def unesc_char_def)
  next
    case 6 then show ?thesis by (simp add: esc_def unesc_char_def)
  next
    case 7 then show ?thesis by (simp add: esc_def unesc_char_def)
  next
    case 8
    then have e: "esc c = (if 32 \<le> ?n \<and> ?n \<le> 126 then [c] else CHR 0x5C # CHR ''u'' # hex4 ?n)"
      by (simp add: esc_def)
    show ?thesis
    proof (cases "32 \<le> ?n \<and> ?n \<le> 126")
      case True
      with e lit[OF 8(2) 8(1)] show ?thesis by simp
    next
      case False
      with e u show ?thesis by simp
    qed
  qed
qed

lemma scan_json_str_body:
  "scan_string (concat (map esc s) @ CHR 0x22 # rest) = Some (s, rest)"
  by (induction s) (simp_all add: scan_esc cons_fst_def)


lemma scan_json_str: "scan_string (tl (json_str s) @ rest) = Some (s, rest)"
  by (simp add: json_str_def scan_json_str_body)

lemma json_str_hd: "json_str s = CHR 0x22 # tl (json_str s)"
  by (simp add: json_str_def)

section \<open>Facts about the values and the members of JSON\<close>

lemma is_nat_lit_chars: "is_nat_lit ds \<Longrightarrow> list_all is_digit ds"
  by (auto simp: is_nat_lit_def is_digit_def)

lemma is_int_lit_no_point:
  assumes "is_int_lit tok"
  shows "CHR ''.'' \<notin> set tok \<and> CHR ''e'' \<notin> set tok"
proof -
  have d: "CHR ''.'' \<notin> set ds \<and> CHR ''e'' \<notin> set ds" if "is_nat_lit ds" for ds
    using is_nat_lit_chars[OF that] by (auto simp: list_all_iff is_digit_def)
  from assms show ?thesis
    by (cases tok) (auto simp: is_int_lit_def dest: d split: if_splits)
qed

lemma str_int_token: "str_int i \<noteq> [] \<and> hd (str_int i) \<noteq> CHR 0x22 \<and> list_all in_token (str_int i)"
proof (cases "i < 0")
  case True
  then show ?thesis by (simp add: str_int_def digits_in_token in_token_def)
next
  case False
  from digits_all_digit[of "nat i"] digits_nonempty[of "nat i"] have "is_digit (hd (digits (nat i)))"
    by (cases "digits (nat i)") simp_all
  with False show ?thesis
    by (simp add: str_int_def digits_in_token digits_nonempty is_digit_in_token)
qed

lemma not_int_lit_consts:
  "\<not> is_int_lit ''null''" "\<not> is_int_lit ''NaN''" "\<not> is_int_lit ''Infinity''" "\<not> is_int_lit ''-Infinity''"
  by code_simp+

lemma float_char_facts:
  "is_float_char c \<Longrightarrow> in_token c \<and> c \<noteq> CHR 0x22 \<and> c \<noteq> CHR ''n'' \<and> c \<noteq> CHR ''N'' \<and> c \<noteq> CHR ''I''"
  by (auto simp: is_float_char_def is_digit_def in_token_def)

lemma float_repr_token:
  assumes "is_float_repr pf r"
  shows "json_val (PFloat r) \<noteq> [] \<and> hd (json_val (PFloat r)) \<noteq> CHR 0x22
       \<and> list_all in_token (json_val (PFloat r))
       \<and> parse_scalar pf (json_val (PFloat r)) = Some (PFloat r)"
proof (cases "r = ''nan'' \<or> r = ''inf'' \<or> r = ''-inf''")
  case True
  have "parse_scalar pf ''NaN'' = Some (PFloat ''nan'')"
    "parse_scalar pf ''Infinity'' = Some (PFloat ''inf'')"
    "parse_scalar pf ''-Infinity'' = Some (PFloat ''-inf'')"
    by (simp_all add: parse_scalar_def not_int_lit_consts)
  moreover have "list_all in_token ''NaN''" "list_all in_token ''Infinity''" "list_all in_token ''-Infinity''"
    by (simp_all add: in_token_def)
  ultimately show ?thesis using True by (elim disjE) simp_all
next
  case False
  with assms have ch: "list_all is_float_char r"
    and pt: "CHR ''.'' \<in> set r \<or> CHR ''e'' \<in> set r" and pf: "pf r = Some r"
    unfolding is_float_repr_def by blast+
  from pt have ne: "r \<noteq> []" by auto
  from ch have all: "\<forall>c \<in> set r. in_token c \<and> c \<noteq> CHR 0x22 \<and> c \<noteq> CHR ''n'' \<and> c \<noteq> CHR ''N'' \<and> c \<noteq> CHR ''I''"
    unfolding list_all_iff using float_char_facts by blast
  then have tok: "list_all in_token r" unfolding list_all_iff by blast
  from ne have "hd r \<in> set r" by simp
  with all have hd: "hd r \<noteq> CHR 0x22" by blast
  have "CHR ''n'' \<in> set ''null''" "CHR ''N'' \<in> set ''NaN''" "CHR ''I'' \<in> set ''Infinity''"
    "CHR ''I'' \<in> set ''-Infinity''" by simp_all
  with all have neq: "r \<noteq> ''null''" "r \<noteq> ''NaN''" "r \<noteq> ''Infinity''" "r \<noteq> ''-Infinity''"
    by blast+
  from pt is_int_lit_no_point[of r] have ni: "\<not> is_int_lit r" by blast
  from False have jv: "json_val (PFloat r) = r" by simp
  show ?thesis
    unfolding jv using ne hd tok neq ni pf by (simp add: parse_scalar_def)
qed

lemma scalar_token:
  assumes "val_ok pf v" and "\<forall>s. v \<noteq> PStr s"
  shows "json_val v \<noteq> [] \<and> hd (json_val v) \<noteq> CHR 0x22 \<and> list_all in_token (json_val v)
       \<and> parse_scalar pf (json_val v) = Some v"
proof (cases v)
  case PNone
  then show ?thesis by (simp add: parse_scalar_def in_token_def)
next
  case (PInt i)
  from is_int_lit_str_int[of i] not_int_lit_consts(1) have "str_int i \<noteq> ''null''" by metis
  with PInt show ?thesis
    by (simp add: parse_scalar_def str_int_token is_int_lit_str_int int_of_lit_str_int)
next
  case (PFloat r)
  with assms(1) float_repr_token[of pf r] show ?thesis by simp
next
  case (PStr s)
  with assms(2) show ?thesis by simp
qed

lemma takeWhile_token: "list_all P xs \<Longrightarrow> \<not> P c \<Longrightarrow> takeWhile P (xs @ c # r) = xs"
  by (induction xs) auto

lemma dropWhile_token: "list_all P xs \<Longrightarrow> \<not> P c \<Longrightarrow> dropWhile P (xs @ c # r) = c # r"
  by (induction xs) auto

lemma parse_val_json_val:
  assumes "val_ok pf v" and "\<not> in_token c"
  shows "parse_val pf (json_val v @ c # rest) = Some (v, c # rest)"
proof (cases "\<exists>s. v = PStr s")
  case True
  then obtain s where v: "v = PStr s" by blast
  have "parse_val pf (CHR 0x22 # tl (json_str s) @ c # rest) = Some (PStr s, c # rest)"
    by (simp add: parse_val_def scan_json_str)
  with v json_str_hd[of s] show ?thesis by (metis json_val.simps(4) append_Cons)
next
  case False
  with scalar_token[OF assms(1)] have ne: "json_val v \<noteq> []" and hd: "hd (json_val v) \<noteq> CHR 0x22"
    and tok: "list_all in_token (json_val v)" and ps: "parse_scalar pf (json_val v) = Some v"
    by auto
  from ne obtain x xs where x: "json_val v = x # xs" by (cases "json_val v") auto
  with hd have q: "x \<noteq> CHR 0x22" by simp
  have tw: "takeWhile in_token (json_val v @ c # rest) = json_val v"
    using tok assms(2) by (rule takeWhile_token)
  have dw: "dropWhile in_token (json_val v @ c # rest) = c # rest"
    using tok assms(2) by (rule dropWhile_token)
  have "parse_val pf (json_val v @ c # rest)
          = map_option (\<lambda>u. (u, dropWhile in_token (json_val v @ c # rest)))
              (parse_scalar pf (takeWhile in_token (json_val v @ c # rest)))"
    using q by (simp add: parse_val_def x)
  then show ?thesis by (simp add: tw dw ps)
qed

lemma json_dumps_members: "json_dumps d = CHR ''{'' # join_str '', '' (map member_text d) @ ''}''"
proof -
  have "(\<lambda>(k, v). json_str k @ '': '' @ json_val v) = member_text"
    by (auto simp: member_text_def fun_eq_iff)
  then show ?thesis by (simp add: json_dumps_def)
qed

declare parse_members.simps [simp del]

lemma parse_member:
  assumes "val_ok pf v" and "\<not> in_token c"
  shows "scan_string (tl (member_text (k, v)) @ c # rest) = Some (k, '': '' @ json_val v @ c # rest)"
    and "parse_val pf (json_val v @ c # rest) = Some (v, c # rest)"
    and "member_text (k, v) = CHR 0x22 # tl (member_text (k, v))"
proof -
  have m: "member_text (k, v) = CHR 0x22 # (tl (json_str k) @ '': '' @ json_val v)"
    using json_str_hd[of k] by (simp add: member_text_def)
  then show "member_text (k, v) = CHR 0x22 # tl (member_text (k, v))" by simp
  from m have "tl (member_text (k, v)) @ c # rest = tl (json_str k) @ ('': '' @ json_val v @ c # rest)"
    by simp
  then show "scan_string (tl (member_text (k, v)) @ c # rest) = Some (k, '': '' @ json_val v @ c # rest)"
    by (simp only: scan_json_str)
  show "parse_val pf (json_val v @ c # rest) = Some (v, c # rest)"
    using assms by (rule parse_val_json_val)
qed

lemma parse_members_step:
  assumes "val_ok pf v" and "\<not> in_token c"
  shows "parse_members (Suc n) pf (member_text (k, v) @ c # rest)
           = (if c # rest = ''}'' then Some [(k, v)]
              else (case c # rest of
                      c3 # c4 # r4 \<Rightarrow>
                        if c3 \<noteq> CHR '','' \<or> c4 \<noteq> CHR '' '' then None
                        else map_option ((#) (k, v)) (parse_members n pf r4)
                    | _ \<Rightarrow> None))"
proof -
  define t where "t = tl (member_text (k, v))"
  have m: "member_text (k, v) = CHR 0x22 # t"
    unfolding t_def using assms by (rule parse_member(3))
  have sc: "scan_string (t @ c # rest) = Some (k, '': '' @ json_val v @ c # rest)"
    unfolding t_def using assms by (rule parse_member(1))
  have pv: "parse_val pf (json_val v @ c # rest) = Some (v, c # rest)"
    using assms by (rule parse_member(2))
  show ?thesis
    unfolding m by (simp add: parse_members.simps(2) sc pv)
qed

lemma parse_members_join:
  assumes "d \<noteq> []" and "\<forall>p \<in> set d. val_ok pf (snd p)" and "length d \<le> n"
  shows "parse_members n pf (join_str '', '' (map member_text d) @ ''}'') = Some d"
  using assms
proof (induction d arbitrary: n)
  case Nil
  then show ?case by simp
next
  case (Cons p d)
  obtain k v where p: "p = (k, v)" by (cases p)
  from Cons.prems(3) obtain m where n: "n = Suc m" and m: "length d \<le> m" by (cases n) auto
  from Cons.prems(2) p have ok: "val_ok pf v" by simp
  show ?case
  proof (cases d)
    case Nil
    have "\<not> in_token (CHR ''}'')" by (simp add: in_token_def)
    from parse_members_step[where n = m and k = k and rest = "[]", OF ok this] Nil p n show ?thesis by simp
  next
    case (Cons q ds)
    have c: "\<not> in_token (CHR '','')" by (simp add: in_token_def)
    let ?rest = "join_str '', '' (map member_text d) @ ''}''"
    from Cons.IH[of m] Cons.prems(2) m Cons have ih: "parse_members m pf ?rest = Some d" by simp
    have "join_str '', '' (map member_text (p # d)) @ ''}'' = member_text (k, v) @ CHR '','' # (CHR '' '' # ?rest)"
      using Cons p by simp
    moreover have "parse_members (Suc m) pf (member_text (k, v) @ CHR '','' # (CHR '' '' # ?rest))
                     = map_option ((#) (k, v)) (parse_members m pf ?rest)"
      using parse_members_step[where n = m and k = k and rest = "CHR '' '' # ?rest", OF ok c] by simp
    ultimately show ?thesis using ih n p by simp
  qed
qed

lemma member_text_nonempty: "member_text p \<noteq> []"
  by (simp add: member_text_def json_str_def)

lemma join_members_hd:
  "d \<noteq> [] \<Longrightarrow> \<exists>t. join_str '', '' (map member_text d) = CHR 0x22 # t"
proof (cases d)
  case Nil
  assume "d \<noteq> []" with Nil show ?thesis by simp
next
  case (Cons p ps)
  have "\<exists>t. member_text p = CHR 0x22 # t" by (simp add: member_text_def json_str_def)
  then show ?thesis using Cons by (cases ps) auto
qed

lemma join_members_length: "length d \<le> length (join_str '', '' (map member_text d))"
proof (induction d)
  case Nil
  then show ?case by simp
next
  case (Cons p d)
  have "1 \<le> length (member_text p)" using member_text_nonempty[of p] by (cases "member_text p") simp_all
  with Cons show ?case by (cases d) simp_all
qed

lemma json_loads_dumps_pairs:
  assumes "\<forall>p \<in> set d. val_ok pf (snd p)"
  shows "json_loads pf (json_dumps d) = Some (py_dict d)"
proof (cases "d = []")
  case True
  then show ?thesis by (simp add: json_dumps_def json_loads_def py_dict_def)
next
  case False
  let ?cs = "join_str '', '' (map member_text d) @ ''}''"
  from join_members_hd[OF False] obtain t where t: "join_str '', '' (map member_text d) = CHR 0x22 # t"
    by blast
  then have ne: "?cs \<noteq> ''}''" by simp
  have "length d \<le> length ?cs" using join_members_length[of d] by simp
  from parse_members_join[OF False assms this] have "parse_members (length ?cs) pf ?cs = Some d" .
  with ne show ?thesis by (simp add: json_dumps_members json_loads_def)
qed

lemma score_record_distinct:
  assumes "score ml wiki lon lat w = (Inr d, w1)"
  shows "distinct (map fst d)"
proof -
  from assms obtain r u where "d = py_dict (zip (columns w) r) \<or> d = dict_set (py_dict (zip (columns w) r)) ''url'' (PStr u)"
    by (auto simp: score_def Let_def split: sum.splits list.splits if_splits prod.splits)
  then show ?thesis
    by (auto simp: py_dict_keys_distinct dict_set_keys_distinct)
qed

section \<open>The format parameter of \<^verbatim>\<open>recommender\<close>\<close>

text \<open>
  C1, as the specification states it: a format other than the structured and the narrative
  one fails with UnsupportedFormat. The code has no such failure: line 283 tests
  \<^verbatim>\<open>format=='html'\<close> and sends every other value to \<^verbatim>\<open>json.dumps\<close>. With the format
  \<^verbatim>\<open>'xml'\<close> the request for the coordinate of Battery Park returns the JSON text.
\<close>

theorem recommender_xml_counterexample:
  \<open>fst (recommender ml0 wiki_up ''-74.01'' ''40.7'' (PStr ''xml'') False w0)
     = Inr (Str (''{"cid": 16, "count": 133, "lat": 40.7034970026, "lon": -74.0160512924, ''
                 @ ''"name": "Battery Park", "url": "https://en.wikipedia.org/wiki/Battery_Park"}''))\<close>
  by code_simp

text \<open>
  C1, amended: for every format value other than \<^verbatim>\<open>'html'\<close>, \<open>recommender\<close> does what it
  does for \<^verbatim>\<open>'json'\<close>; when \<open>score\<close> returns a record with a name, the result is the JSON
  text of that record, never a failure caused by the format.
\<close>

theorem recommender_other_format_is_json:
  assumes "fmt \<noteq> PStr ''html''"
  shows "recommender ml wiki lon lat fmt nb w = recommender ml wiki lon lat (PStr ''json'') nb w
       \<and> (score ml wiki lon lat w = (Inr d, w1) \<and> dict_get d ''name'' = Inr nm \<longrightarrow>
            recommender ml wiki lon lat fmt False w = (Inr (Str (json_dumps d)), w1))"
proof -
  have r: "render fmt x = render (PStr ''json'') x" for x
    using assms by (simp add: render_def)
  have "recommender ml wiki lon lat fmt nb w = recommender ml wiki lon lat (PStr ''json'') nb w"
    unfolding recommender_def r ..
  moreover have "recommender ml wiki lon lat fmt False w = (Inr (Str (json_dumps d)), w1)"
    if "score ml wiki lon lat w = (Inr d, w1)" "dict_get d ''name'' = Inr nm"
    using recommender_json[OF assms that, of False] by simp
  ultimately show ?thesis by blast
qed

theorem recommender_other_format_is_json_witness:
  "PStr ''xml'' \<noteq> PStr ''html''
   \<and> score ml0 wiki_up ''-74.01'' ''40.7'' w0 = (Inr rec16, w0_linked)
   \<and> dict_get rec16 ''name'' = Inr (PStr ''Battery Park'')
   \<and> recommender ml0 wiki_up ''-74.01'' ''40.7'' (PStr ''xml'') False w0
       = recommender ml0 wiki_up ''-74.01'' ''40.7'' (PStr ''json'') False w0
   \<and> recommender ml0 wiki_up ''-74.01'' ''40.7'' (PStr ''xml'') False w0 = (Inr (Str (json_dumps rec16)), w0_linked)"
proof -
  have h0: "PStr ''xml'' \<noteq> PStr ''html''" by simp
  have h3: "dict_get rec16 ''name'' = Inr (PStr ''Battery Park'')" by code_simp
  from recommender_other_format_is_json[where ml = ml0 and wiki = wiki_up and nb = False and w = w0
      and d = rec16 and ?w1.0 = w0_linked and nm = "PStr ''Battery Park''", OF h0] h3 score_example h0
  show ?thesis by blast
qed

section \<open>The enrichment step of \<^verbatim>\<open>score\<close>\<close>

text \<open>
  C2. The enrichment step of \<open>score\<close> (lines 188 to 194) is idempotent. When the row that the
  lookup returns has a link that is not \<^verbatim>\<open>None\<close>, \<open>score\<close> returns the dictionary built from
  that row as it is, the table is unchanged and the only statement sent is the
  \<^verbatim>\<open>SELECT\<close>: no request to the external service, no \<^verbatim>\<open>UPDATE\<close>. A second call, whatever
  the external service would answer then, returns the same dictionary and again sends the
  \<^verbatim>\<open>SELECT\<close> only.
\<close>

theorem score_link_present_idempotent:
  assumes "ml lon lat = Inr cl"
    and "cql_select cl 1 w = r # rs"
    and "dict_get (py_dict (zip (columns w) r)) ''url'' = Inr u"
    and "u \<noteq> PNone"
  shows "score ml wiki lon lat w
           = (Inr (py_dict (zip (columns w) r)), w\<lparr>trace := trace w @ [Select cl 1]\<rparr>)
       \<and> score ml wiki' lon lat (snd (score ml wiki lon lat w))
           = (Inr (py_dict (zip (columns w) r)), w\<lparr>trace := trace w @ [Select cl 1, Select cl 1]\<rparr>)"
proof -
  let ?w1 = "w\<lparr>trace := trace w @ [Select cl 1]\<rparr>"
  have first: "score ml wiki lon lat w = (Inr (py_dict (zip (columns w) r)), ?w1)"
    using assms by (simp add: score_def Let_def)
  have sel: "cql_select cl 1 ?w1 = r # rs"
    using assms(2) by (simp add: cql_select_def)
  have "score ml wiki' lon lat ?w1
          = (Inr (py_dict (zip (columns w) r)), ?w1\<lparr>trace := trace ?w1 @ [Select cl 1]\<rparr>)"
    using assms(1,3,4) sel by (simp add: score_def Let_def)
  with first show ?thesis by simp
qed

theorem score_link_present_idempotent_witness:
  "ml0 ''-74.97'' ''41.51'' = Inr 7
   \<and> cql_select 7 1 w0 = [row7]
   \<and> dict_get (py_dict (zip (columns w0) row7)) ''url'' = Inr (PStr ''h'')
   \<and> PStr ''h'' \<noteq> PNone
   \<and> score ml0 wiki_up ''-74.97'' ''41.51'' w0
        = (Inr (py_dict (zip (columns w0) row7)), w0\<lparr>trace := trace w0 @ [Select 7 1]\<rparr>)
   \<and> score ml0 wiki_down ''-74.97'' ''41.51'' (snd (score ml0 wiki_up ''-74.97'' ''41.51'' w0))
        = (Inr (py_dict (zip (columns w0) row7)), w0\<lparr>trace := trace w0 @ [Select 7 1, Select 7 1]\<rparr>)"
proof -
  have h1: "ml0 ''-74.97'' ''41.51'' = Inr 7" by (simp add: ml0_def)
  have h2: "cql_select 7 1 w0 = [row7]" by code_simp
  have h3: "dict_get (py_dict (zip (columns w0) row7)) ''url'' = Inr (PStr ''h'')" by code_simp
  have h4: "PStr ''h'' \<noteq> PNone" by simp
  from score_link_present_idempotent[where ml = ml0 and wiki = wiki_up and wiki' = wiki_down, OF h1 h2 h3 h4]
    h1 h2 h3 h4
  show ?thesis by blast
qed

section \<open>The narrative format\<close>

text \<open>
  C3. For every record with a venue name \<open>X\<close>, rendering in the narrative format yields exactly
  \<^verbatim>\<open>What about visiting the X?\<close> when the record has no link, and exactly the sentence
  with \<open>X\<close> wrapped in an anchor to the link when it has one. \<^verbatim>\<open>link\<close> tests the truth value
  of the link (\<^verbatim>\<open>if url\<close>): a record has no link when the link is \<^verbatim>\<open>None\<close> or the empty
  string, which is what \<open>score\<close> leaves after a failed lookup.
\<close>

theorem narrative_template:
  assumes "dict_get d ''name'' = Inr (PStr X)"
  shows \<open>(dict_get d ''url'' = Inr PNone \<or> dict_get d ''url'' = Inr (PStr []) \<longrightarrow>
            fst (render (PStr ''html'') d) = Inr (''What about visiting the '' @ X @ ''?''))
       \<and> (\<forall>u. dict_get d ''url'' = Inr (PStr u) \<and> u \<noteq> [] \<longrightarrow>
            fst (render (PStr ''html'') d)
              = Inr (''What about visiting the <a href="'' @ u @ ''">'' @ X @ ''</a>?''))\<close>
  using assms
  by (auto simp: render_def html_template_def Let_def dict_get_dict_set link_def)

theorem narrative_template_witness:
  \<open>dict_get rec_blank ''name'' = Inr (PStr ''Battery Park'')
   \<and> dict_get rec_blank ''url'' = Inr (PStr [])
   \<and> fst (render (PStr ''html'') rec_blank) = Inr (''What about visiting the '' @ ''Battery Park'' @ ''?'')
   \<and> dict_get rec16 ''name'' = Inr (PStr ''Battery Park'')
   \<and> dict_get rec16 ''url'' = Inr (PStr ''https://en.wikipedia.org/wiki/Battery_Park'')
   \<and> fst (render (PStr ''html'') rec16)
       = Inr (''What about visiting the <a href="'' @ ''https://en.wikipedia.org/wiki/Battery_Park''
              @ ''">'' @ ''Battery Park'' @ ''</a>?'')\<close>
proof -
  have h1: "dict_get rec_blank ''name'' = Inr (PStr ''Battery Park'')" by code_simp
  have h2: "dict_get rec_blank ''url'' = Inr (PStr [])" by code_simp
  have h3: "dict_get rec16 ''name'' = Inr (PStr ''Battery Park'')" by code_simp
  have h4: "dict_get rec16 ''url'' = Inr (PStr ''https://en.wikipedia.org/wiki/Battery_Park'')" by code_simp
  have h5: "''https://en.wikipedia.org/wiki/Battery_Park'' \<noteq> []" by simp
  from narrative_template[OF h1] h2
  have a: "fst (render (PStr ''html'') rec_blank) = Inr (''What about visiting the '' @ ''Battery Park'' @ ''?'')"
    by blast
  from narrative_template[OF h3] h4 h5
  have b: \<open>fst (render (PStr ''html'') rec16)
       = Inr (''What about visiting the <a href="'' @ ''https://en.wikipedia.org/wiki/Battery_Park''
              @ ''">'' @ ''Battery Park'' @ ''</a>?'')\<close>
    by blast
  from a b h1 h2 h3 h4 show ?thesis by blast
qed

section \<open>The structured format\<close>

text \<open>
  C4. Rendering a record in the structured format loses nothing. For every dictionary (each
  key once, as in a Python dictionary, and as in every record that \<open>score\<close> returns) whose
  floats are floats as \<^verbatim>\<open>repr\<close> prints them, the structured rendering is \<open>json_dumps\<close> of
  the record, the record itself stays as it is, and reading the text back gives exactly the
  record: the same keys with the same values in the same order, none added, dropped or
  renamed. \<open>recommender\<close> with the format \<^verbatim>\<open>'json'\<close> returns that text for the record of
  \<open>score\<close>.
\<close>

theorem structured_round_trip:
  assumes "distinct (map fst d)" and "list_all (\<lambda>p. val_ok pf (snd p)) d"
  shows "render (PStr ''json'') d = (Inr (json_dumps d), d)
       \<and> json_loads pf (json_dumps d) = Some d
       \<and> (score ml wiki lon lat w = (Inr d, w1) \<and> dict_get d ''name'' = Inr nm \<longrightarrow>
            recommender ml wiki lon lat (PStr ''json'') False w = (Inr (Str (json_dumps d)), w1))"
proof -
  from assms(2) have ok: "\<forall>p \<in> set d. val_ok pf (snd p)" by (simp add: list_all_iff)
  have a: "render (PStr ''json'') d = (Inr (json_dumps d), d)" by (simp add: render_def)
  have b: "json_loads pf (json_dumps d) = Some d"
    using json_loads_dumps_pairs[OF ok] py_dict_distinct[OF assms(1)] by simp
  have c: "recommender ml wiki lon lat (PStr ''json'') False w = (Inr (Str (json_dumps d)), w1)"
    if "score ml wiki lon lat w = (Inr d, w1)" "dict_get d ''name'' = Inr nm"
    using recommender_json[where fmt = "PStr ''json''" and nb = False, OF _ that] by simp
  from a b c show ?thesis by blast
qed

theorem structured_round_trip_witness:
  \<open>score ml0 wiki_up ''-74.01'' ''40.7'' w0 = (Inr rec16, w0_linked)
   \<and> distinct (map fst rec16) \<and> list_all (\<lambda>p. val_ok float0 (snd p)) rec16
   \<and> dict_get rec16 ''name'' = Inr (PStr ''Battery Park'')
   \<and> json_dumps rec16
       = ''{"cid": 16, "count": 133, "lat": 40.7034970026, "lon": -74.0160512924, ''
         @ ''"name": "Battery Park", "url": "https://en.wikipedia.org/wiki/Battery_Park"}''
   \<and> render (PStr ''json'') rec16 = (Inr (json_dumps rec16), rec16)
   \<and> json_loads float0 (json_dumps rec16) = Some rec16
   \<and> recommender ml0 wiki_up ''-74.01'' ''40.7'' (PStr ''json'') False w0
       = (Inr (Str (json_dumps rec16)), w0_linked)\<close>
proof -
  have h1: "distinct (map fst rec16)" using score_record_distinct[OF score_example] .
  have h2: "list_all (\<lambda>p. val_ok float0 (snd p)) rec16" by code_simp
  have h3: "dict_get rec16 ''name'' = Inr (PStr ''Battery Park'')" by code_simp
  have h4: \<open>json_dumps rec16
       = ''{"cid": 16, "count": 133, "lat": 40.7034970026, "lon": -74.0160512924, ''
         @ ''"name": "Battery Park", "url": "https://en.wikipedia.org/wiki/Battery_Park"}''\<close>
    by code_simp
  note t = structured_round_trip[where pf = float0 and ml = ml0 and wiki = wiki_up and lon = "''-74.01''"
      and lat = "''40.7''" and w = w0 and ?w1.0 = w0_linked and nm = "PStr ''Battery Park''", OF h1 h2]
  from t have a: "render (PStr ''json'') rec16 = (Inr (json_dumps rec16), rec16)" by (rule conjunct1)
  from t have b: "json_loads float0 (json_dumps rec16) = Some rec16" by (elim conjE)
  from t score_example h3
  have c: "recommender ml0 wiki_up ''-74.01'' ''40.7'' (PStr ''json'') False w0
       = (Inr (Str (json_dumps rec16)), w0_linked)"
    by blast
  show ?thesis
    by (intro conjI) (rule score_example h1 h2 h3 h4 a b c)+
qed

section \<open>The lookup\<close>



text \<open>
  C6. When no row of the table has the classified cluster id, \<^verbatim>\<open>rows[0]\<close> raises
  \<open>IndexError\<close> (the specification's NotFound): \<open>score\<close> fails with it after the one
  \<^verbatim>\<open>SELECT\<close>, \<open>recommender\<close> fails with it for every format, and so does the REST service
  once the two parameters have parsed. Nothing is retried: the trace gains that one
  \<^verbatim>\<open>SELECT\<close> only.
\<close>

theorem empty_partition_IndexError:
  assumes "ml lon lat = Inr cl"
    and "\<forall>r \<in> set (table w). row_cid (columns w) r \<noteq> Some (PInt cl)"
  shows "score ml wiki lon lat w = (Inl IndexError, w\<lparr>trace := trace w @ [Select cl 1]\<rparr>)
       \<and> recommender ml wiki lon lat fmt nb w = (Inl IndexError, w\<lparr>trace := trace w @ [Select cl 1]\<rparr>)
       \<and> (py_float slon = Some lon \<and> py_float slat = Some lat \<longrightarrow>
            recommender_api ml wiki py_float slon slat w
              = (Inl IndexError, w\<lparr>trace := trace w @ [Select cl 1]\<rparr>))"
proof -
  from assms(2) have "cql_select cl 1 w = []" using cql_select_empty[of cl w] by blast
  with assms(1) have s: "score ml wiki lon lat w = (Inl IndexError, w\<lparr>trace := trace w @ [Select cl 1]\<rparr>)"
    by (simp add: score_def Let_def)
  then show ?thesis
    by (simp add: recommender_propagates recommender_api_def)
qed

theorem empty_partition_IndexError_witness:
  "ml0 ''-74.0'' ''40.55'' = Inr 3
   \<and> cql_select 3 1 w0 = []
   \<and> score ml0 wiki_up ''-74.0'' ''40.55'' w0 = (Inl IndexError, w0\<lparr>trace := trace w0 @ [Select 3 1]\<rparr>)
   \<and> recommender ml0 wiki_up ''-74.0'' ''40.55'' (PStr ''json'') False w0
        = (Inl IndexError, w0\<lparr>trace := trace w0 @ [Select 3 1]\<rparr>)
   \<and> float0 ''-74'' = Some ''-74.0'' \<and> float0 ''40.55'' = Some ''40.55''
   \<and> recommender_api ml0 wiki_up float0 ''-74'' ''40.55'' w0
        = (Inl IndexError, w0\<lparr>trace := trace w0 @ [Select 3 1]\<rparr>)"
proof -
  have h1: "ml0 ''-74.0'' ''40.55'' = Inr 3" by (simp add: ml0_def)
  have h2: "cql_select 3 1 w0 = []" by code_simp
  then have h2': "\<forall>r \<in> set (table w0). row_cid (columns w0) r \<noteq> Some (PInt 3)"
    by (simp only: cql_select_empty)
  have h3: "float0 ''-74'' = Some ''-74.0''" and h4: "float0 ''40.55'' = Some ''40.55''"
    by code_simp+
  from empty_partition_IndexError[where ml = ml0 and wiki = wiki_up and fmt = "PStr ''json''"
      and nb = False and py_float = float0 and slon = "''-74''" and slat = "''40.55''", OF h1 h2']
    h1 h2 h3 h4
  show ?thesis by blast
qed

section \<open>A failing external lookup\<close>

text \<open>
  C7. When the stored link of the venue is \<^verbatim>\<open>None\<close> and the request to the external
  service for the venue's name fails, \<open>geturl\<close> returns the empty string, \<open>score\<close> returns
  the record with all its fields and the empty string as link, and \<open>recommender\<close> returns a
  rendering. For a name that is text, \<open>geturl\<close> never raises. No other error is recovered.
  \<^verbatim>\<open>quote\<close> stands before the \<^verbatim>\<open>try\<close>: on a name that is no text \<open>geturl\<close> raises
  \<open>TypeError\<close>, and \<open>score\<close> ends with it after the \<^verbatim>\<open>SELECT\<close>. An error of the model,
  an empty result, a missing \<^verbatim>\<open>url\<close> or \<^verbatim>\<open>name\<close> key and an error of the \<^verbatim>\<open>UPDATE\<close>
  each end \<open>score\<close> with that error. An error of \<open>score\<close>, and a record without a name,
  end \<open>recommender\<close> with that error, and an error of \<open>score\<close> ends the REST service
  with it, as a parameter that does not parse ends it with \<open>ValueError\<close>. The primed
  variables of the statement are free: those parts hold for every store and every row.
\<close>

theorem external_failure_recovered:
  assumes "distinct (columns w)" and "ml lon lat = Inr cl" and "cql_select cl 1 w = r # rs"
    and "dict_get (py_dict (zip (columns w) r)) ''url'' = Inr PNone"
    and "dict_get (py_dict (zip (columns w) r)) ''name'' = Inr (PStr n)"
    and "wiki (search_url (quote n)) = None"
  shows "geturl wiki (PStr n) v = (Inr [], v\<lparr>trace := trace v @ [UrlOpen (search_url (quote n))]\<rparr>)
       \<and> score ml wiki lon lat w
           = (Inr (dict_set (py_dict (zip (columns w) r)) ''url'' (PStr [])),
              w\<lparr>trace := trace w @ [Select cl 1, UrlOpen (search_url (quote n)), Update [] (PInt cl)],
                table := upsert_url (columns w) [] cl (table w)\<rparr>)
       \<and> map fst (dict_set (py_dict (zip (columns w) r)) ''url'' (PStr [])) = map fst (zip (columns w) r)
       \<and> (\<exists>out. fst (recommender ml wiki lon lat fmt nb w) = Inr out)
       \<and> (\<exists>u. fst (geturl wiki' (PStr m) w') = Inr u)
       \<and> ((\<forall>s. nm \<noteq> PStr s) \<longrightarrow> geturl wiki' nm w' = (Inl TypeError, w'))
       \<and> (ml' lon' lat' = Inl e \<longrightarrow> score ml' wiki' lon' lat' w' = (Inl e, w'))
       \<and> (ml' lon' lat' = Inr cl' \<and> cql_select cl' 1 w' = [] \<longrightarrow>
            score ml' wiki' lon' lat' w' = (Inl IndexError, w'\<lparr>trace := trace w' @ [Select cl' 1]\<rparr>))
       \<and> (ml' lon' lat' = Inr cl' \<and> cql_select cl' 1 w' = r' # rs'
            \<and> dict_get (py_dict (zip (columns w') r')) ''url'' = Inl e \<longrightarrow>
            score ml' wiki' lon' lat' w' = (Inl e, w'\<lparr>trace := trace w' @ [Select cl' 1]\<rparr>))
       \<and> (ml' lon' lat' = Inr cl' \<and> cql_select cl' 1 w' = r' # rs'
            \<and> dict_get (py_dict (zip (columns w') r')) ''url'' = Inr PNone
            \<and> dict_get (py_dict (zip (columns w') r')) ''name'' = Inl e \<longrightarrow>
            score ml' wiki' lon' lat' w' = (Inl e, w'\<lparr>trace := trace w' @ [Select cl' 1]\<rparr>))
       \<and> (ml' lon' lat' = Inr cl' \<and> cql_select cl' 1 w' = r' # rs'
            \<and> dict_get (py_dict (zip (columns w') r')) ''url'' = Inr PNone
            \<and> dict_get (py_dict (zip (columns w') r')) ''name'' = Inr nm \<and> (\<forall>s. nm \<noteq> PStr s) \<longrightarrow>
            score ml' wiki' lon' lat' w' = (Inl TypeError, w'\<lparr>trace := trace w' @ [Select cl' 1]\<rparr>))
       \<and> (ml' lon' lat' = Inr cl' \<and> cql_select cl' 1 w' = r' # rs'
            \<and> dict_get (py_dict (zip (columns w') r')) ''url'' = Inr PNone
            \<and> dict_get (py_dict (zip (columns w') r')) ''name'' = Inr (PStr m)
            \<and> u = (case wiki' (search_url (quote m)) of None \<Rightarrow> [] | Some x \<Rightarrow> x)
            \<and> dict_get (dict_set (py_dict (zip (columns w') r')) ''url'' (PStr u)) ''cid'' = Inr c
            \<and> cql_update u c (w'\<lparr>trace := trace w' @ [Select cl' 1, UrlOpen (search_url (quote m))]\<rparr>)
                = (Inl e, w2) \<longrightarrow>
            score ml' wiki' lon' lat' w' = (Inl e, w2))
       \<and> (score ml' wiki' lon' lat' w' = (Inl e, w2) \<longrightarrow>
            recommender ml' wiki' lon' lat' fmt' nb' w' = (Inl e, w2))
       \<and> (score ml' wiki' lon' lat' w' = (Inr d, w2) \<and> dict_get d ''name'' = Inl e \<longrightarrow>
            recommender ml' wiki' lon' lat' fmt' nb' w' = (Inl e, w2))
       \<and> (pf slon = Some lon' \<and> pf slat = Some lat' \<and> score ml' wiki' lon' lat' w' = (Inl e, w2) \<longrightarrow>
            recommender_api ml' wiki' pf slon slat w' = (Inl e, w2))
       \<and> (pf slon = None \<or> pf slat = None \<longrightarrow>
            recommender_api ml' wiki' pf slon slat w' = (Inl ValueError, w'))"
proof -
  let ?d = "py_dict (zip (columns w) r)"
  let ?d' = "dict_set ?d ''url'' (PStr [])"
  have dz: "?d = zip (columns w) r" using assms(1) by (rule py_dict_zip)
  note g = geturl_failure[where wiki = wiki and v = v, OF assms(6)]
  note s = score_external_failure[where ml = ml and wiki = wiki, OF assms]
  have keys: "map fst ?d' = map fst (zip (columns w) r)"
    using assms(4) unfolding dz dict_set_def dict_get_Inr_iff
    by (simp add: update_keys map_of_eq_None_iff[symmetric])
  have rec: "\<exists>out. fst (recommender ml wiki lon lat fmt nb w) = Inr out"
    using assms(5) by (simp add: recommender_def s dict_get_dict_set render_def html_template_def Let_def)
  show ?thesis
    apply (intro conjI impI)
    subgoal by (rule g)
    subgoal by (rule s)
    subgoal by (rule keys)
    subgoal by (rule rec)
    subgoal by (rule geturl_text)
    subgoal by (rule geturl_not_text)
    subgoal by (rule score_model_error)
    subgoal by (elim conjE, rule score_no_row)
    subgoal by (elim conjE, rule score_url_error)
    subgoal by (elim conjE, rule score_name_error)
    subgoal by (elim conjE, rule score_name_not_text)
    subgoal by (elim conjE, rule score_update_error)
    subgoal by (rule recommender_propagates)
    subgoal by (elim conjE, rule recommender_name_error)
    subgoal by (elim conjE, rule recommender_api_propagates)
    subgoal by (rule recommender_api_parse_error)
    done
qed

theorem external_failure_recovered_witness:
  "distinct (columns w0) \<and> ml0 ''-74.01'' ''40.7'' = Inr 16 \<and> cql_select 16 1 w0 = [row16]
   \<and> dict_get (py_dict (zip (columns w0) row16)) ''url'' = Inr PNone
   \<and> dict_get (py_dict (zip (columns w0) row16)) ''name'' = Inr (PStr ''Battery Park'')
   \<and> wiki_down (search_url (quote ''Battery Park'')) = None
   \<and> geturl wiki_down (PStr ''Battery Park'') w0
       = (Inr [], w0\<lparr>trace := trace w0 @ [UrlOpen (search_url (quote ''Battery Park''))]\<rparr>)
   \<and> score ml0 wiki_down ''-74.01'' ''40.7'' w0
       = (Inr (dict_set (py_dict (zip (columns w0) row16)) ''url'' (PStr [])),
          w0\<lparr>trace := trace w0 @ [Select 16 1, UrlOpen (search_url (quote ''Battery Park'')), Update [] (PInt 16)],
             table := upsert_url (columns w0) [] 16 (table w0)\<rparr>)
   \<and> dict_set (py_dict (zip (columns w0) row16)) ''url'' (PStr []) = rec_blank
   \<and> (\<exists>out. fst (recommender ml0 wiki_down ''-74.01'' ''40.7'' (PStr ''html'') False w0) = Inr out)
   \<and> geturl wiki_up PNone w0 = (Inl TypeError, w0)
   \<and> ml0 ''-74.0'' ''40.55'' = Inr 3 \<and> cql_select 3 1 w0_unnamed = [row_unnamed]
   \<and> dict_get (py_dict (zip (columns w0_unnamed) row_unnamed)) ''url'' = Inr PNone
   \<and> dict_get (py_dict (zip (columns w0_unnamed) row_unnamed)) ''name'' = Inr PNone
   \<and> score ml0 wiki_up ''-74.0'' ''40.55'' w0_unnamed
       = (Inl TypeError, w0_unnamed\<lparr>trace := trace w0_unnamed @ [Select 3 1]\<rparr>)
   \<and> recommender ml0 wiki_up ''-74.0'' ''40.55'' (PStr ''html'') False w0_unnamed
       = (Inl TypeError, w0_unnamed\<lparr>trace := trace w0_unnamed @ [Select 3 1]\<rparr>)
   \<and> float0 ''-74'' = Some ''-74.0'' \<and> float0 ''40.55'' = Some ''40.55''
   \<and> recommender_api ml0 wiki_up float0 ''-74'' ''40.55'' w0_unnamed
       = (Inl TypeError, w0_unnamed\<lparr>trace := trace w0_unnamed @ [Select 3 1]\<rparr>)
   \<and> ml_down ''-74.01'' ''40.7'' = Inl ValueError
   \<and> score ml_down wiki_up ''-74.01'' ''40.7'' w0 = (Inl ValueError, w0)
   \<and> cql_update (''https://en.wikipedia.org/wiki/O'' @ [CHR 0x27] @ ''Hare'') (PInt 16)
         (w0\<lparr>trace := trace w0 @ [Select 16 1, UrlOpen (search_url (quote ''Battery Park''))]\<rparr>)
       = (Inl InvalidRequest,
          w0\<lparr>trace := trace w0 @ [Select 16 1, UrlOpen (search_url (quote ''Battery Park'')),
                                    Update (''https://en.wikipedia.org/wiki/O'' @ [CHR 0x27] @ ''Hare'') (PInt 16)]\<rparr>)
   \<and> score ml0 wiki_apos ''-74.01'' ''40.7'' w0
       = (Inl InvalidRequest,
          w0\<lparr>trace := trace w0 @ [Select 16 1, UrlOpen (search_url (quote ''Battery Park'')),
                                    Update (''https://en.wikipedia.org/wiki/O'' @ [CHR 0x27] @ ''Hare'') (PInt 16)]\<rparr>)"
proof -
  let ?ohare = "''https://en.wikipedia.org/wiki/O'' @ [CHR 0x27] @ ''Hare''"
  let ?wu = "w0_unnamed\<lparr>trace := trace w0_unnamed @ [Select 3 1]\<rparr>"
  let ?wa = "w0\<lparr>trace := trace w0 @ [Select 16 1, UrlOpen (search_url (quote ''Battery Park'')),
                                    Update ?ohare (PInt 16)]\<rparr>"
  have h0: "distinct (columns w0)" by code_simp
  have h1: "ml0 ''-74.01'' ''40.7'' = Inr 16" by (simp add: ml0_def)
  have h2: "cql_select 16 1 w0 = [row16]" by code_simp
  have h3: "dict_get (py_dict (zip (columns w0) row16)) ''url'' = Inr PNone" by code_simp
  have h4: "dict_get (py_dict (zip (columns w0) row16)) ''name'' = Inr (PStr ''Battery Park'')" by code_simp
  have h5: "wiki_down (search_url (quote ''Battery Park'')) = None" by (simp add: wiki_down_def)
  have h6: "dict_set (py_dict (zip (columns w0) row16)) ''url'' (PStr []) = rec_blank" by code_simp
  have n0: "\<forall>s. PNone \<noteq> PStr s" by simp
  have u1: "ml0 ''-74.0'' ''40.55'' = Inr 3" by (simp add: ml0_def)
  have u2: "cql_select 3 1 w0_unnamed = [row_unnamed]" by code_simp
  have u3: "dict_get (py_dict (zip (columns w0_unnamed) row_unnamed)) ''url'' = Inr PNone" by code_simp
  have u4: "dict_get (py_dict (zip (columns w0_unnamed) row_unnamed)) ''name'' = Inr PNone" by code_simp
  have f1: "float0 ''-74'' = Some ''-74.0''" and f2: "float0 ''40.55'' = Some ''40.55''" by code_simp+
  have m1: "ml_down ''-74.01'' ''40.7'' = Inl ValueError" by (simp add: ml_down_def)
  have a1: "?ohare = (case wiki_apos (search_url (quote ''Battery Park'')) of None \<Rightarrow> [] | Some x \<Rightarrow> x)"
    by (simp add: wiki_apos_def)
  have a2: "dict_get (dict_set (py_dict (zip (columns w0) row16)) ''url'' (PStr ?ohare)) ''cid'' = Inr (PInt 16)"
    by code_simp
  have a3: "cql_update ?ohare (PInt 16)
              (w0\<lparr>trace := trace w0 @ [Select 16 1, UrlOpen (search_url (quote ''Battery Park''))]\<rparr>)
            = (Inl InvalidRequest, ?wa)"
    by code_simp
  note t = external_failure_recovered[where ml = ml0 and wiki = wiki_down and v = w0
      and fmt = "PStr ''html''" and nb = False, OF h0 h1 h2 h3 h4 h5]
  from t have a: "geturl wiki_down (PStr ''Battery Park'') w0
       = (Inr [], w0\<lparr>trace := trace w0 @ [UrlOpen (search_url (quote ''Battery Park''))]\<rparr>)"
    by (rule conjunct1)
  from t[THEN conjunct2, THEN conjunct1] have b: "score ml0 wiki_down ''-74.01'' ''40.7'' w0
       = (Inr (dict_set (py_dict (zip (columns w0) row16)) ''url'' (PStr [])),
          w0\<lparr>trace := trace w0 @ [Select 16 1, UrlOpen (search_url (quote ''Battery Park'')), Update [] (PInt 16)],
             table := upsert_url (columns w0) [] 16 (table w0)\<rparr>)" .
  from t[THEN conjunct2, THEN conjunct2, THEN conjunct2, THEN conjunct1] have c: "\<exists>out. fst (recommender ml0 wiki_down ''-74.01'' ''40.7'' (PStr ''html'') False w0) = Inr out" .
  from t[where wiki' = wiki_up and nm = PNone and w' = w0,
      THEN conjunct2, THEN conjunct2, THEN conjunct2, THEN conjunct2, THEN conjunct2, THEN conjunct1] n0
  have f': "geturl wiki_up PNone w0 = (Inl TypeError, w0)" by blast
  from t[where ml' = ml0 and wiki' = wiki_up and lon' = "''-74.0''" and lat' = "''40.55''"
      and w' = w0_unnamed and cl' = 3 and r' = row_unnamed and rs' = "[]" and nm = PNone,
      THEN conjunct2, THEN conjunct2, THEN conjunct2, THEN conjunct2, THEN conjunct2, THEN conjunct2, THEN conjunct2, THEN conjunct2, THEN conjunct2, THEN conjunct2, THEN conjunct1] n0 u1 u2 u3 u4
  have g: "score ml0 wiki_up ''-74.0'' ''40.55'' w0_unnamed = (Inl TypeError, ?wu)" by blast
  from t[where ml' = ml0 and wiki' = wiki_up and lon' = "''-74.0''" and lat' = "''40.55''"
      and w' = w0_unnamed and e = TypeError and ?w2.0 = ?wu and fmt' = "PStr ''html''" and nb' = False,
      THEN conjunct2, THEN conjunct2, THEN conjunct2, THEN conjunct2, THEN conjunct2, THEN conjunct2, THEN conjunct2, THEN conjunct2, THEN conjunct2, THEN conjunct2, THEN conjunct2, THEN conjunct2, THEN conjunct1] g
  have gk: "recommender ml0 wiki_up ''-74.0'' ''40.55'' (PStr ''html'') False w0_unnamed
       = (Inl TypeError, ?wu)" by blast
  from t[where ml' = ml0 and wiki' = wiki_up and lon' = "''-74.0''" and lat' = "''40.55''"
      and w' = w0_unnamed and e = TypeError and ?w2.0 = ?wu and pf = float0 and slon = "''-74''"
      and slat = "''40.55''",
      THEN conjunct2, THEN conjunct2, THEN conjunct2, THEN conjunct2, THEN conjunct2, THEN conjunct2, THEN conjunct2, THEN conjunct2, THEN conjunct2, THEN conjunct2, THEN conjunct2, THEN conjunct2, THEN conjunct2, THEN conjunct2, THEN conjunct1] g f1 f2
  have gl: "recommender_api ml0 wiki_up float0 ''-74'' ''40.55'' w0_unnamed
       = (Inl TypeError, ?wu)" by blast
  from t[where ml' = ml_down and wiki' = wiki_up and lon' = "''-74.01''" and lat' = "''40.7''"
      and w' = w0 and e = ValueError,
      THEN conjunct2, THEN conjunct2, THEN conjunct2, THEN conjunct2, THEN conjunct2, THEN conjunct2, THEN conjunct1] m1
  have h: "score ml_down wiki_up ''-74.01'' ''40.7'' w0 = (Inl ValueError, w0)" by blast
  from t[where ml' = ml0 and wiki' = wiki_apos and lon' = "''-74.01''" and lat' = "''40.7''"
      and w' = w0 and cl' = 16 and r' = row16 and rs' = "[]" and m = "''Battery Park''"
      and u = ?ohare and c = "PInt 16" and e = InvalidRequest and ?w2.0 = ?wa,
      THEN conjunct2, THEN conjunct2, THEN conjunct2, THEN conjunct2, THEN conjunct2, THEN conjunct2, THEN conjunct2, THEN conjunct2, THEN conjunct2, THEN conjunct2, THEN conjunct2, THEN conjunct1] h1 h2 h3 h4 a1 a2 a3
  have i: "score ml0 wiki_apos ''-74.01'' ''40.7'' w0 = (Inl InvalidRequest, ?wa)" by blast
  show ?thesis
    by (intro conjI) (rule h0 h1 h2 h3 h4 h5 h6 a b c f' u1 u2 u3 u4 g gk gl f1 f2 m1 h a3 i)+
qed

section \<open>The REST service\<close>

text \<open>
  C8. \<open>recommender_api\<close> applies \<^verbatim>\<open>float\<close> to its two parameters. When one of them does not
  parse it fails with \<open>ValueError\<close> (the specification's InvalidCoordinate) before anything
  is sent to the store. When both parse, its result is that of \<open>recommender\<close> with the format
  \<^verbatim>\<open>'json'\<close> on the parsed coordinate: the JSON text of the record that \<open>score\<close> returns.
\<close>

theorem recommender_api_parse_then_json:
  "(py_float slon = None \<or> py_float slat = None \<longrightarrow>
      recommender_api ml wiki py_float slon slat w = (Inl ValueError, w))
   \<and> (py_float slon = Some lon \<and> py_float slat = Some lat \<longrightarrow>
        recommender_api ml wiki py_float slon slat w = recommender ml wiki lon lat (PStr ''json'') False w)
   \<and> (py_float slon = Some lon \<and> py_float slat = Some lat
        \<and> score ml wiki lon lat w = (Inr d, w1) \<and> dict_get d ''name'' = Inr nm \<longrightarrow>
        recommender_api ml wiki py_float slon slat w = (Inr (Str (json_dumps d)), w1))"
proof -
  have a: "recommender_api ml wiki py_float slon slat w = (Inl ValueError, w)"
    if "py_float slon = None \<or> py_float slat = None"
    using that by (auto simp: recommender_api_def split: option.splits)
  have b: "recommender_api ml wiki py_float slon slat w = recommender ml wiki lon lat (PStr ''json'') False w"
    if "py_float slon = Some lon" "py_float slat = Some lat"
    using that by (simp add: recommender_api_def)
  have c: "recommender_api ml wiki py_float slon slat w = (Inr (Str (json_dumps d)), w1)"
    if "py_float slon = Some lon" "py_float slat = Some lat"
       "score ml wiki lon lat w = (Inr d, w1)" "dict_get d ''name'' = Inr nm"
    using b[OF that(1,2)] recommender_json[OF _ that(3,4), of "PStr ''json''" False] by simp
  from a b c show ?thesis by blast
qed

theorem recommender_api_parse_then_json_witness:
  "float0 ''abc'' = None
   \<and> recommender_api ml0 wiki_up float0 ''abc'' ''40.7'' w0 = (Inl ValueError, w0)
   \<and> float0 ''-74.01'' = Some ''-74.01'' \<and> float0 ''40.7'' = Some ''40.7''
   \<and> score ml0 wiki_up ''-74.01'' ''40.7'' w0 = (Inr rec16, w0_linked)
   \<and> dict_get rec16 ''name'' = Inr (PStr ''Battery Park'')
   \<and> recommender_api ml0 wiki_up float0 ''-74.01'' ''40.7'' w0 = (Inr (Str (json_dumps rec16)), w0_linked)"
proof -
  have h0: "float0 ''abc'' = None" by code_simp
  have h1: "float0 ''-74.01'' = Some ''-74.01''" and h2: "float0 ''40.7'' = Some ''40.7''"
    by code_simp+
  have h3: "dict_get rec16 ''name'' = Inr (PStr ''Battery Park'')" by code_simp
  from recommender_api_parse_then_json[where py_float = float0 and slon = "''abc''" and ml = ml0
      and wiki = wiki_up and slat = "''40.7''" and w = w0] h0
  have a: "recommender_api ml0 wiki_up float0 ''abc'' ''40.7'' w0 = (Inl ValueError, w0)" by blast
  from recommender_api_parse_then_json[where py_float = float0 and slon = "''-74.01''" and ml = ml0
      and wiki = wiki_up and slat = "''40.7''" and w = w0 and lon = "''-74.01''" and lat = "''40.7''"
      and d = rec16 and ?w1.0 = w0_linked and nm = "PStr ''Battery Park''"] h1 h2 h3 score_example
  have b: "recommender_api ml0 wiki_up float0 ''-74.01'' ''40.7'' w0 = (Inr (Str (json_dumps rec16)), w0_linked)"
    by blast
  from a b h0 h1 h2 h3 score_example show ?thesis by blast
qed

section \<open>The empty link is cached\<close>

text \<open>
  C9. When the stored link is \<^verbatim>\<open>None\<close> and the external lookup fails, \<open>score\<close> still sends
  the \<^verbatim>\<open>UPDATE\<close>, with the empty string as the link, and the table holds the empty string
  for the cluster from then on. The test of line 188 compares with \<^verbatim>\<open>None\<close> only: after any
  later requests, whatever the external service answers by then, a request for that cluster
  sends the \<^verbatim>\<open>SELECT\<close> only and returns the empty link.
\<close>

theorem failed_lookup_cached_forever:
  assumes "distinct (columns w)" and "ml lon lat = Inr cl" and "cql_select cl 1 w = r # rs"
    and "dict_get (py_dict (zip (columns w) r)) ''url'' = Inr PNone"
    and "dict_get (py_dict (zip (columns w) r)) ''name'' = Inr (PStr n)"
    and "wiki (search_url (quote n)) = None"
  shows "trace (snd (score ml wiki lon lat w))
           = trace w @ [Select cl 1, UrlOpen (search_url (quote n)), Update [] (PInt cl)]
       \<and> table (snd (score ml wiki lon lat w)) = upsert_url (columns w) [] cl (table w)
       \<and> cached_empty cl (snd (score ml wiki lon lat w))
       \<and> (\<forall>qs wiki' lon' lat'. ml lon' lat' = Inr cl \<longrightarrow>
            (\<exists>d. score ml wiki' lon' lat' (requests ml qs (snd (score ml wiki lon lat w)))
                    = (Inr d, (requests ml qs (snd (score ml wiki lon lat w)))
                               \<lparr>trace := trace (requests ml qs (snd (score ml wiki lon lat w))) @ [Select cl 1]\<rparr>)
                \<and> dict_get d ''url'' = Inr (PStr [])))"
proof -
  let ?v = "snd (score ml wiki lon lat w)"
  let ?P = "\<lambda>r. row_cid (columns w) r = Some (PInt cl)"
  note s = score_external_failure[where ml = ml and wiki = wiki, OF assms]
  from s have tr: "trace ?v = trace w @ [Select cl 1, UrlOpen (search_url (quote n)), Update [] (PInt cl)]"
    and tab: "table ?v = upsert_url (columns w) [] cl (table w)"
    and cols: "columns ?v = columns w"
    by simp_all
  from assms(3) have "take 1 (filter ?P (table w)) = r # rs" by (simp add: cql_select_def)
  then obtain rest where f: "filter ?P (table w) = r # rest"
    by (cases "filter ?P (table w)") auto
  have sel: "cql_select cl 1 ?v = [set_url (columns w) [] r]"
    by (simp add: cql_select_def cols tab filter_upsert_same[OF f])
  from assms(4) assms(1) have m: "map_of (zip (columns w) r) ''url'' = Some PNone"
    by (simp add: py_dict_zip dict_get_Inr_iff)
  then obtain i where i: "col_index ''url'' (columns w) = Some i"
    using col_index_of_zip[of "columns w" r "''url''" PNone] by auto
  have "map_of (zip (columns w) (set_url (columns w) [] r)) ''url'' = Some (PStr [])"
    using zip_update_same[OF i m] i by (simp add: set_url_def)
  with assms(1) have "dict_get (py_dict (zip (columns w) (set_url (columns w) [] r))) ''url'' = Inr (PStr [])"
    by (simp add: py_dict_zip dict_get_Inr_iff)
  with sel cols have ce: "cached_empty cl ?v" by (simp add: cached_empty_def)
  have later: "\<exists>d. score ml wiki' lon' lat' (requests ml qs ?v)
                    = (Inr d, (requests ml qs ?v)\<lparr>trace := trace (requests ml qs ?v) @ [Select cl 1]\<rparr>)
                \<and> dict_get d ''url'' = Inr (PStr [])"
    if "ml lon' lat' = Inr cl" for qs wiki' lon' lat'
  proof -
    from assms(1) cols have "distinct (columns ?v)" by simp
    then have "cached_empty cl (requests ml qs ?v)" using ce by (rule cached_empty_requests)
    then show ?thesis using that by (rule cached_empty_request)
  qed
  show ?thesis
    apply (intro conjI allI impI)
    subgoal by (rule tr)
    subgoal by (rule tab)
    subgoal by (rule ce)
    subgoal by (rule later)
    done
qed

theorem failed_lookup_cached_forever_witness:
  "distinct (columns w0) \<and> ml0 ''-74.01'' ''40.7'' = Inr 16 \<and> cql_select 16 1 w0 = [row16]
   \<and> dict_get (py_dict (zip (columns w0) row16)) ''url'' = Inr PNone
   \<and> dict_get (py_dict (zip (columns w0) row16)) ''name'' = Inr (PStr ''Battery Park'')
   \<and> wiki_down (search_url (quote ''Battery Park'')) = None
   \<and> trace (snd (score ml0 wiki_down ''-74.01'' ''40.7'' w0))
       = trace w0 @ [Select 16 1, UrlOpen (search_url (quote ''Battery Park'')), Update [] (PInt 16)]
   \<and> cached_empty 16 (snd (score ml0 wiki_down ''-74.01'' ''40.7'' w0))
   \<and> (\<exists>d. score ml0 wiki_up ''-74.01'' ''40.7''
               (requests ml0 [(wiki_up, ''-74.97'', ''41.51'')] (snd (score ml0 wiki_down ''-74.01'' ''40.7'' w0)))
            = (Inr d, (requests ml0 [(wiki_up, ''-74.97'', ''41.51'')] (snd (score ml0 wiki_down ''-74.01'' ''40.7'' w0)))
                 \<lparr>trace := trace (requests ml0 [(wiki_up, ''-74.97'', ''41.51'')]
                                    (snd (score ml0 wiki_down ''-74.01'' ''40.7'' w0))) @ [Select 16 1]\<rparr>)
          \<and> dict_get d ''url'' = Inr (PStr []))"
proof -
  have h0: "distinct (columns w0)" by code_simp
  have h1: "ml0 ''-74.01'' ''40.7'' = Inr 16" by (simp add: ml0_def)
  have h2: "cql_select 16 1 w0 = [row16]" by code_simp
  have h3: "dict_get (py_dict (zip (columns w0) row16)) ''url'' = Inr PNone" by code_simp
  have h4: "dict_get (py_dict (zip (columns w0) row16)) ''name'' = Inr (PStr ''Battery Park'')" by code_simp
  have h5: "wiki_down (search_url (quote ''Battery Park'')) = None" by (simp add: wiki_down_def)
  note t = failed_lookup_cached_forever[where ml = ml0 and wiki = wiki_down, OF h0 h1 h2 h3 h4 h5]
  from t have a: "trace (snd (score ml0 wiki_down ''-74.01'' ''40.7'' w0))
       = trace w0 @ [Select 16 1, UrlOpen (search_url (quote ''Battery Park'')), Update [] (PInt 16)]"
    by (rule conjunct1)
  from t have b: "cached_empty 16 (snd (score ml0 wiki_down ''-74.01'' ''40.7'' w0))"
    by (elim conjE)
  from t have "\<forall>qs wiki' lon' lat'. ml0 lon' lat' = Inr 16 \<longrightarrow>
            (\<exists>d. score ml0 wiki' lon' lat' (requests ml0 qs (snd (score ml0 wiki_down ''-74.01'' ''40.7'' w0)))
                    = (Inr d, (requests ml0 qs (snd (score ml0 wiki_down ''-74.01'' ''40.7'' w0)))
                               \<lparr>trace := trace (requests ml0 qs (snd (score ml0 wiki_down ''-74.01'' ''40.7'' w0))) @ [Select 16 1]\<rparr>)
                \<and> dict_get d ''url'' = Inr (PStr []))"
    by (elim conjE)
  from this[rule_format, where lon' = "''-74.01''" and lat' = "''40.7''"
      and qs = "[(wiki_up, ''-74.97'', ''41.51'')]" and wiki' = wiki_up, OF h1]
  have c: "\<exists>d. score ml0 wiki_up ''-74.01'' ''40.7''
               (requests ml0 [(wiki_up, ''-74.97'', ''41.51'')] (snd (score ml0 wiki_down ''-74.01'' ''40.7'' w0)))
            = (Inr d, (requests ml0 [(wiki_up, ''-74.97'', ''41.51'')] (snd (score ml0 wiki_down ''-74.01'' ''40.7'' w0)))
                 \<lparr>trace := trace (requests ml0 [(wiki_up, ''-74.97'', ''41.51'')]
                                    (snd (score ml0 wiki_down ''-74.01'' ''40.7'' w0))) @ [Select 16 1]\<rparr>)
          \<and> dict_get d ''url'' = Inr (PStr [])" .
  show ?thesis
    by (intro conjI) (rule h0 h1 h2 h3 h4 h5 a b c)+
qed

section \<open>The narrative format changes the record\<close>

text \<open>
  C10. \<^verbatim>\<open>html_template\<close> assigns \<^verbatim>\<open>d['url_html']\<close> on the dictionary it is given. For a
  record that \<open>score\<close> returned from a table without a column \<^verbatim>\<open>url_html\<close>, the dictionary
  after a narrative rendering is the record with the key \<^verbatim>\<open>url_html\<close> added, which differs
  from the record; after a structured rendering it is the record.
\<close>

theorem narrative_mutates_score_record:
  assumes "score ml wiki lon lat w = (Inr d, w1)" and "''url_html'' \<notin> set (columns w)"
    and "dict_get d ''name'' = Inr n"
  shows "\<exists>u. dict_get d ''url'' = Inr u
             \<and> snd (render (PStr ''html'') d) = d @ [(''url_html'', link u n)]
             \<and> snd (render (PStr ''html'') d) \<noteq> d
             \<and> snd (render (PStr ''json'') d) = d"
proof -
  from score_Inr_has_url[OF assms(1)] obtain u where u: "dict_get d ''url'' = Inr u" by blast
  from score_record_keys[OF assms(1,2)] have f: "map_of d ''url_html'' = None" .
  let ?d' = "d @ [(''url_html'', link u n)]"
  have "dict_get ?d' ''url_html'' = Inr (link u n)"
    using f by (simp add: dict_get_def map_add_def)
  with u assms(3) f
  have "html_template d = (Inr (''What about visiting the '' @ py_str (link u n) @ ''?''), ?d')"
    by (simp add: html_template_def Let_def dict_set_fresh)
  then have "snd (render (PStr ''html'') d) = ?d'" "snd (render (PStr ''html'') d) \<noteq> d"
    "snd (render (PStr ''json'') d) = d"
    by (simp_all add: render_def)
  with u show ?thesis by blast
qed

theorem narrative_mutates_score_record_witness:
  \<open>score ml0 wiki_up ''-74.01'' ''40.7'' w0 = (Inr rec16, w0_linked)
   \<and> ''url_html'' \<notin> set (columns w0)
   \<and> dict_get rec16 ''name'' = Inr (PStr ''Battery Park'')
   \<and> dict_get rec16 ''url'' = Inr (PStr ''https://en.wikipedia.org/wiki/Battery_Park'')
   \<and> snd (render (PStr ''html'') rec16)
       = rec16 @ [(''url_html'', link (PStr ''https://en.wikipedia.org/wiki/Battery_Park'') (PStr ''Battery Park''))]
   \<and> snd (render (PStr ''html'') rec16) \<noteq> rec16
   \<and> snd (render (PStr ''json'') rec16) = rec16\<close>
proof -
  have h1: "score ml0 wiki_up ''-74.01'' ''40.7'' w0 = (Inr rec16, w0_linked)" by (rule score_example)
  have h2: "''url_html'' \<notin> set (columns w0)" by code_simp
  have h3: "dict_get rec16 ''name'' = Inr (PStr ''Battery Park'')" by code_simp
  have h4: "dict_get rec16 ''url'' = Inr (PStr ''https://en.wikipedia.org/wiki/Battery_Park'')" by code_simp
  from narrative_mutates_score_record[where ml = ml0 and wiki = wiki_up, OF h1 h2 h3] h4
  have "snd (render (PStr ''html'') rec16)
          = rec16 @ [(''url_html'', link (PStr ''https://en.wikipedia.org/wiki/Battery_Park'') (PStr ''Battery Park''))]
        \<and> snd (render (PStr ''html'') rec16) \<noteq> rec16
        \<and> snd (render (PStr ''json'') rec16) = rec16"
    by auto
  with h1 h2 h3 h4 show ?thesis by blast
qed

end
